theory Spec2Isabelle
  imports Complex_Main "HOL-Library.Log_Nat"
begin

section \<open>Numbers\<close>

text \<open>
  The handlers compute with two kinds of numbers.

  \<^item> Money columns are declared \<^verbatim>\<open>numeric(10, 2)\<close> in \<^verbatim>\<open>db/schema.ts\<close>. The driver hands
    such a value to the handler as a decimal string. The model represents the column value
    by its number of hundredths, an \<^typ>\<open>int\<close>: \<^verbatim>\<open>'1999.99'\<close> is \<open>199999\<close>.
  \<^item> A JavaScript \<^verbatim>\<open>number\<close> is an IEEE 754 binary64 value. The model represents a finite
    one by the rational it denotes, and every arithmetic step rounds its exact result to
    the nearest value with 53 significant bits, ties to even. Infinities, NaN and the
    reduced precision of subnormal values are not represented. The amounts of
    \<open>createOrder\<close> are sums of products of a two-decimal price and an integer quantity: they
    are multiples of 2 to the -59 and would have to exceed 10 to the 308 to overflow. The
    one product of \<open>verifyAdminToken\<close> is only compared with the clock, and the comparison
    comes out the same.
\<close>

type_synonym numeric = int
type_synonym number = rat

definition pow2 :: "int \<Rightarrow> rat" where
  "pow2 e = (if 0 \<le> e then 2 ^ nat e else 1 / 2 ^ nat (- e))"

definition pow10 :: "int \<Rightarrow> rat" where
  "pow10 e = (if 0 \<le> e then 10 ^ nat e else 1 / 10 ^ nat (- e))"

text \<open>\<open>ilog2 x\<close> is the binary exponent of a positive rational: \<open>2 ^ e \<le> x < 2 ^ (e + 1)\<close>.\<close>

definition ilog2 :: "rat \<Rightarrow> int" where
  "ilog2 x = (case quotient_of x of (p, q) \<Rightarrow>
     let e0 = bitlen p - bitlen q
     in if pow2 e0 \<le> x then e0 else e0 - 1)"

definition round_half_even :: "rat \<Rightarrow> int" where
  "round_half_even m = (let f = \<lfloor>m\<rfloor>; d = m - of_int f
     in if d < 1 / 2 then f else if 1 / 2 < d then f + 1 else if even f then f else f + 1)"

text \<open>Rounding to binary64: 53 significant bits, round to nearest, ties to even.\<close>

definition binary64 :: "rat \<Rightarrow> number" where
  "binary64 x = (if x = 0 then 0 else
     let ulp = pow2 (ilog2 \<bar>x\<bar> - 52) in of_int (round_half_even (x / ulp)) * ulp)"

definition js_add :: "number \<Rightarrow> number \<Rightarrow> number" where
  "js_add a b = binary64 (a + b)"

definition js_mul :: "number \<Rightarrow> number \<Rightarrow> number" where
  "js_mul a b = binary64 (a * b)"

text \<open>\<^verbatim>\<open>parseFloat\<close> of the text of a \<^verbatim>\<open>numeric(10, 2)\<close> value.\<close>

definition parseFloat :: "numeric \<Rightarrow> number" where
  "parseFloat h = binary64 (of_int h / 100)"

text \<open>
  \<^verbatim>\<open>Number.prototype.toString\<close> prints the decimal with the fewest significant digits
  that reads back as the same binary64 value; of two such decimals the one nearer to
  the value. \<open>number_toString\<close> returns the rational that the printed text denotes.
  Seventeen digits always suffice for a binary64 value, so the last equation of
  \<open>shortest_digits\<close> is only reached on arguments that are not binary64 values.
\<close>

function declen :: "int \<Rightarrow> int" where
  "declen n = (if n \<le> 0 then 0 else declen (n div 10) + 1)"
  by pat_completeness auto
termination
  by (relation "measure nat") auto

declare declen.simps [simp del]

definition decimal_exponent :: "rat \<Rightarrow> int" where
  "decimal_exponent x = (case quotient_of x of (p, q) \<Rightarrow>
     let n0 = declen p - declen q
     in if pow10 n0 \<le> x then n0 + 1 else n0)"

definition digits_candidates :: "rat \<Rightarrow> int \<Rightarrow> nat \<Rightarrow> rat list" where
  "digits_candidates x n k = (let scale = pow10 (n - int k); lo = \<lfloor>x / scale\<rfloor>
     in filter (\<lambda>v. binary64 v = x) [of_int lo * scale, of_int (lo + 1) * scale])"

fun shortest_digits :: "rat \<Rightarrow> int \<Rightarrow> nat list \<Rightarrow> rat" where
  "shortest_digits x n [] = x"
| "shortest_digits x n (k # ks) =
     (case digits_candidates x n k of
        [] \<Rightarrow> shortest_digits x n ks
      | [v] \<Rightarrow> v
      | v # w # _ \<Rightarrow> (if x - v \<le> w - x then v else w))"

definition number_toString :: "number \<Rightarrow> rat" where
  "number_toString x = (if x = 0 then 0
     else if x < 0 then - shortest_digits (- x) (decimal_exponent (- x)) [1..<18]
     else shortest_digits x (decimal_exponent x) [1..<18])"

text \<open>
  Storing a decimal into a \<^verbatim>\<open>numeric(10, 2)\<close> column rounds it to two places, ties away
  from zero, and fails with "numeric field overflow" unless the rounded absolute value
  is below 10 to the 8.
\<close>

definition round_half_away :: "rat \<Rightarrow> int" where
  "round_half_away r = (if 0 \<le> r then \<lfloor>r + 1 / 2\<rfloor> else - \<lfloor>- r + 1 / 2\<rfloor>)"

definition numeric_10_2 :: "rat \<Rightarrow> numeric option" where
  "numeric_10_2 d = (let h = round_half_away (d * 100)
     in if \<bar>h\<bar> < 10 ^ 10 then Some h else None)"

section \<open>Tables\<close>

text \<open>
  The tables of \<^verbatim>\<open>db/schema.ts\<close>, each a list of rows in insertion order. No table declares
  a constraint besides its primary key and the uniqueness of admin user names and
  e-mails. A \<^verbatim>\<open>serial\<close> primary key is drawn from the table's sequence, kept beside the
  tables. \<^verbatim>\<open>integer\<close> columns are modelled by \<^typ>\<open>int\<close>, timestamps by milliseconds.
\<close>

datatype jewelry_category = rings | earrings | necklaces | cufflinks

datatype order_status = pending | processing | shipped | delivered | cancelled

record jewelry_item_row =
  ji_id :: int
  ji_name :: string
  ji_description :: string
  ji_materials :: string
  ji_category :: jewelry_category
  ji_price :: numeric
  ji_image_url :: "string option"
  ji_stock_quantity :: int
  ji_is_featured :: bool
  ji_created_at :: int
  ji_updated_at :: int

record admin_user_row =
  au_id :: int
  au_username :: string
  au_email :: string
  au_password_hash :: string
  au_created_at :: int
  au_updated_at :: int

record cart_item_row =
  ci_id :: int
  ci_session_id :: string
  ci_jewelry_item_id :: int
  ci_quantity :: int
  ci_created_at :: int
  ci_updated_at :: int

record order_row =
  ord_id :: int
  ord_session_id :: string
  ord_customer_name :: string
  ord_customer_email :: string
  ord_customer_phone :: "string option"
  ord_shipping_address :: string
  ord_billing_address :: "string option"
  ord_total_amount :: numeric
  ord_status :: order_status
  ord_notes :: "string option"
  ord_created_at :: int
  ord_updated_at :: int

record order_item_row =
  oi_id :: int
  oi_order_id :: int
  oi_jewelry_item_id :: int
  oi_quantity :: int
  oi_price_at_time :: numeric
  oi_created_at :: int

record db =
  jewelryItemsTable :: "jewelry_item_row list"
  adminUsersTable :: "admin_user_row list"
  cartItemsTable :: "cart_item_row list"
  ordersTable :: "order_row list"
  orderItemsTable :: "order_item_row list"
  jewelry_items_seq :: int
  cart_items_seq :: int
  orders_seq :: int
  order_items_seq :: int

section \<open>Types of \<^verbatim>\<open>schema.ts\<close>\<close>

record JewelryItem =
  item_id :: int
  item_name :: string
  item_description :: string
  item_materials :: string
  item_category :: jewelry_category
  item_price :: number
  item_image_url :: "string option"
  item_stock_quantity :: int
  item_is_featured :: bool
  item_created_at :: int
  item_updated_at :: int

record AdminUser =
  admin_id :: int
  admin_username :: string
  admin_email :: string
  admin_password_hash :: string
  admin_created_at :: int
  admin_updated_at :: int

record CreateOrderInput =
  coi_session_id :: string
  coi_customer_name :: string
  coi_customer_email :: string
  coi_customer_phone :: "string option"
  coi_shipping_address :: string
  coi_billing_address :: "string option"
  coi_notes :: "string option"

record OrderWithItems_item =
  line_id :: int
  line_quantity :: int
  line_price_at_time :: number
  line_jewelry_item :: JewelryItem

record OrderWithItems =
  owi_id :: int
  owi_session_id :: string
  owi_customer_name :: string
  owi_customer_email :: string
  owi_customer_phone :: "string option"
  owi_shipping_address :: string
  owi_billing_address :: "string option"
  owi_total_amount :: number
  owi_status :: order_status
  owi_notes :: "string option"
  owi_created_at :: int
  owi_updated_at :: int
  owi_items :: "OrderWithItems_item list"

text \<open>What a handler can throw.\<close>

datatype error =
    NumericFieldOverflow
  | JewelryItemNotFoundError
  | InsufficientStockError
  | Unauthorized
  | InvalidCharacterError
  | SyntaxError
  | TypeError
  | PasswordError

section \<open>\<^verbatim>\<open>addToCart\<close>\<close>

text \<open>
  The handler that inserts cart rows. It throws when the jewelry item does not exist or has
  less stock than asked for; a row of the same session and item is updated, not doubled.
\<close>

record AddToCartInput =
  aci_session_id :: string
  aci_jewelry_item_id :: int
  aci_quantity :: int

record CartWithItems =
  cwi_id :: int
  cwi_session_id :: string
  cwi_quantity :: int
  cwi_jewelry_item :: JewelryItem
  cwi_created_at :: int
  cwi_updated_at :: int

text \<open>A jewelry row as the handlers return it: \<^verbatim>\<open>{ ...item, price: parseFloat(item.price) }\<close>.\<close>

definition jewelry_item_of_row :: "jewelry_item_row \<Rightarrow> JewelryItem" where
  "jewelry_item_of_row j =
     \<lparr> item_id = ji_id j, item_name = ji_name j, item_description = ji_description j,
       item_materials = ji_materials j, item_category = ji_category j,
       item_price = parseFloat (ji_price j), item_image_url = ji_image_url j,
       item_stock_quantity = ji_stock_quantity j, item_is_featured = ji_is_featured j,
       item_created_at = ji_created_at j, item_updated_at = ji_updated_at j \<rparr>"

definition cart_with_items :: "cart_item_row \<Rightarrow> jewelry_item_row \<Rightarrow> CartWithItems" where
  "cart_with_items cartItem jewelryItem =
     \<lparr> cwi_id = ci_id cartItem, cwi_session_id = ci_session_id cartItem,
       cwi_quantity = ci_quantity cartItem, cwi_jewelry_item = jewelry_item_of_row jewelryItem,
       cwi_created_at = ci_created_at cartItem, cwi_updated_at = ci_updated_at cartItem \<rparr>"

definition addToCart :: "int \<Rightarrow> AddToCartInput \<Rightarrow> db \<Rightarrow> (error + CartWithItems) \<times> db" where
  "addToCart now input d =
     (case filter (\<lambda>j. ji_id j = aci_jewelry_item_id input) (jewelryItemsTable d) of
        [] \<Rightarrow> (Inl JewelryItemNotFoundError, d)
      | jewelryItem # _ \<Rightarrow>
          if ji_stock_quantity jewelryItem < aci_quantity input then (Inl InsufficientStockError, d)
          else
            (case filter (\<lambda>c. ci_session_id c = aci_session_id input \<and>
                               ci_jewelry_item_id c = aci_jewelry_item_id input) (cartItemsTable d) of
               existingItem # _ \<Rightarrow>
                 (let newQuantity = ci_quantity existingItem + aci_quantity input
                  in if newQuantity > ji_stock_quantity jewelryItem then (Inl InsufficientStockError, d)
                     else
                       (let d' = d\<lparr> cartItemsTable :=
                                      map (\<lambda>c. if ci_id c = ci_id existingItem
                                                then c\<lparr> ci_quantity := newQuantity, ci_updated_at := now \<rparr>
                                                else c)
                                          (cartItemsTable d) \<rparr>
                        in case filter (\<lambda>c. ci_id c = ci_id existingItem) (cartItemsTable d') of
                             [] \<Rightarrow> (Inl TypeError, d')
                           | cartItem # _ \<Rightarrow> (Inr (cart_with_items cartItem jewelryItem), d')))
             | [] \<Rightarrow>
                 (let cartItem = \<lparr> ci_id = cart_items_seq d, ci_session_id = aci_session_id input,
                                    ci_jewelry_item_id = aci_jewelry_item_id input,
                                    ci_quantity = aci_quantity input,
                                    ci_created_at = now, ci_updated_at = now \<rparr>
                  in (Inr (cart_with_items cartItem jewelryItem),
                      d\<lparr> cartItemsTable := cartItemsTable d @ [cartItem],
                          cart_items_seq := cart_items_seq d + 1 \<rparr>))))"

text \<open>The cart table holds at most one row per session and jewelry item.\<close>

definition cart_unique :: "db \<Rightarrow> bool" where
  "cart_unique d \<longleftrightarrow> distinct (map (\<lambda>c. (ci_session_id c, ci_jewelry_item_id c)) (cartItemsTable d))"

section \<open>\<^verbatim>\<open>createOrder\<close>\<close>

text \<open>
  Step 1: the cart rows of the session, inner-joined with the jewelry rows they name.
  A joined row is the pair of the cart row and the jewelry row; \<open>quantity\<close> is read from
  the first, the \<open>jewelryItem...\<close> columns from the second.
\<close>

type_synonym cart_join_row = "cart_item_row \<times> jewelry_item_row"

definition select_cart_items :: "db \<Rightarrow> string \<Rightarrow> cart_join_row list" where
  "select_cart_items d sid =
     concat (map (\<lambda>c. map (Pair c) (filter (\<lambda>j. ci_jewelry_item_id c = ji_id j) (jewelryItemsTable d)))
                 (filter (\<lambda>c. ci_session_id c = sid) (cartItemsTable d)))"

text \<open>Step 2: the loop that returns null at the first row asking for more than the stock.\<close>

fun insufficient_stock :: "cart_join_row list \<Rightarrow> bool" where
  "insufficient_stock [] = False"
| "insufficient_stock (item # rest) =
     (if ci_quantity (fst item) > ji_stock_quantity (snd item) then True
      else insufficient_stock rest)"

text \<open>Step 3: \<^verbatim>\<open>totalAmount += parseFloat(item.jewelryItemPrice) * item.quantity\<close>.\<close>

fun calculate_total :: "number \<Rightarrow> cart_join_row list \<Rightarrow> number" where
  "calculate_total totalAmount [] = totalAmount"
| "calculate_total totalAmount (item # rest) =
     calculate_total
       (js_add totalAmount (js_mul (parseFloat (ji_price (snd item))) (of_int (ci_quantity (fst item)))))
       rest"

text \<open>Step 4, inside the transaction: the row inserted into \<^verbatim>\<open>orders\<close>.\<close>

definition insert_order :: "int \<Rightarrow> CreateOrderInput \<Rightarrow> numeric \<Rightarrow> db \<Rightarrow> order_row \<times> db" where
  "insert_order now input total_amount d =
     (let order = \<lparr> ord_id = orders_seq d,
                     ord_session_id = coi_session_id input,
                     ord_customer_name = coi_customer_name input,
                     ord_customer_email = coi_customer_email input,
                     ord_customer_phone = coi_customer_phone input,
                     ord_shipping_address = coi_shipping_address input,
                     ord_billing_address = coi_billing_address input,
                     ord_total_amount = total_amount,
                     ord_status = pending,
                     ord_notes = coi_notes input,
                     ord_created_at = now,
                     ord_updated_at = now \<rparr>
      in (order, d\<lparr> ordersTable := ordersTable d @ [order], orders_seq := orders_seq d + 1 \<rparr>))"

definition insert_order_item :: "int \<Rightarrow> order_row \<Rightarrow> cart_join_row \<Rightarrow> db \<Rightarrow> order_item_row \<times> db" where
  "insert_order_item now order cartItem d =
     (let orderItem = \<lparr> oi_id = order_items_seq d,
                         oi_order_id = ord_id order,
                         oi_jewelry_item_id = ji_id (snd cartItem),
                         oi_quantity = ci_quantity (fst cartItem),
                         oi_price_at_time = ji_price (snd cartItem),
                         oi_created_at = now \<rparr>
      in (orderItem, d\<lparr> orderItemsTable := orderItemsTable d @ [orderItem],
                         order_items_seq := order_items_seq d + 1 \<rparr>))"

definition update_stock :: "int \<Rightarrow> cart_join_row \<Rightarrow> db \<Rightarrow> db" where
  "update_stock now cartItem d =
     d\<lparr> jewelryItemsTable :=
          map (\<lambda>j. if ji_id j = ji_id (snd cartItem)
                    then j\<lparr> ji_stock_quantity := ji_stock_quantity j - ci_quantity (fst cartItem),
                            ji_updated_at := now \<rparr>
                    else j)
              (jewelryItemsTable d) \<rparr>"

text \<open>The loop over the cart rows: one order item and one stock update per row.\<close>

fun order_items_loop ::
  "int \<Rightarrow> order_row \<Rightarrow> cart_join_row list \<Rightarrow> order_item_row list \<Rightarrow> db \<Rightarrow> order_item_row list \<times> db" where
  "order_items_loop now order [] orderItems d = (orderItems, d)"
| "order_items_loop now order (cartItem # rest) orderItems d =
     (case insert_order_item now order cartItem d of
        (orderItem, d1) \<Rightarrow>
          order_items_loop now order rest (orderItems @ [orderItem]) (update_stock now cartItem d1))"

definition clear_cart :: "string \<Rightarrow> db \<Rightarrow> db" where
  "clear_cart sid d = d\<lparr> cartItemsTable := filter (\<lambda>c. ci_session_id c \<noteq> sid) (cartItemsTable d) \<rparr>"

text \<open>
  The transaction. Of the ways its statements can fail in the database, the one that rows
  written by the handlers can bring about is modelled: the total of the order does not fit
  \<^verbatim>\<open>numeric(10, 2)\<close>. The transaction is then rolled back, which the caller models by
  keeping the database it started from. A failure that needs rows the handlers never write
  (a primary key met twice, a stock or a sequence beyond 32 bits) is not modelled.
\<close>

definition order_transaction ::
  "int \<Rightarrow> CreateOrderInput \<Rightarrow> cart_join_row list \<Rightarrow> number \<Rightarrow> db
     \<Rightarrow> error + (order_row \<times> order_item_row list \<times> db)" where
  "order_transaction now input cartItems totalAmount d =
     (case numeric_10_2 (number_toString totalAmount) of
        None \<Rightarrow> Inl NumericFieldOverflow
      | Some total_amount \<Rightarrow>
          (case insert_order now input total_amount d of
             (order, d1) \<Rightarrow>
               (case order_items_loop now order cartItems [] d1 of
                  (orderItems, d2) \<Rightarrow> Inr (order, orderItems, clear_cart (coi_session_id input) d2))))"

definition response_item :: "order_item_row \<times> cart_join_row \<Rightarrow> OrderWithItems_item" where
  "response_item p =
     \<lparr> line_id = oi_id (fst p),
       line_quantity = oi_quantity (fst p),
       line_price_at_time = parseFloat (oi_price_at_time (fst p)),
       line_jewelry_item = jewelry_item_of_row (snd (snd p)) \<rparr>"

definition order_with_items :: "order_row \<Rightarrow> OrderWithItems_item list \<Rightarrow> OrderWithItems" where
  "order_with_items order items =
     \<lparr> owi_id = ord_id order, owi_session_id = ord_session_id order,
       owi_customer_name = ord_customer_name order, owi_customer_email = ord_customer_email order,
       owi_customer_phone = ord_customer_phone order,
       owi_shipping_address = ord_shipping_address order,
       owi_billing_address = ord_billing_address order,
       owi_total_amount = parseFloat (ord_total_amount order),
       owi_status = ord_status order, owi_notes = ord_notes order,
       owi_created_at = ord_created_at order, owi_updated_at = ord_updated_at order,
       owi_items = items \<rparr>"

text \<open>
  \<open>createOrder now input d\<close> is the pair of what the promise settles to and the database
  afterwards: \<open>Inr None\<close> is the returned null, \<open>Inr (Some order)\<close> the returned order, \<open>Inl e\<close>
  the rethrown error. \<open>now\<close> is the database clock.
\<close>

definition createOrder :: "int \<Rightarrow> CreateOrderInput \<Rightarrow> db \<Rightarrow> (error + OrderWithItems option) \<times> db" where
  "createOrder now input d =
     (let cartItems = select_cart_items d (coi_session_id input)
      in if length cartItems = 0 then (Inr None, d)
         else if insufficient_stock cartItems then (Inr None, d)
         else
           (case order_transaction now input cartItems (calculate_total 0 cartItems) d of
              Inl e \<Rightarrow> (Inl e, d)
            | Inr (order, orderItems, d') \<Rightarrow>
                (Inr (Some (order_with_items order (map response_item (zip orderItems cartItems)))), d')))"

text \<open>
  The cart rows of a session, and the quantity they order of one jewelry item: the words in
  which the effect of \<open>createOrder\<close> on the stock is stated.
\<close>

definition cart_lines :: "db \<Rightarrow> string \<Rightarrow> cart_item_row list" where
  "cart_lines d sid = filter (\<lambda>c. ci_session_id c = sid) (cartItemsTable d)"


text \<open>
  What the loop of the transaction does to one jewelry row: every cart row naming it takes
  its quantity off the stock.
\<close>

definition decrement :: "int \<Rightarrow> cart_join_row list \<Rightarrow> jewelry_item_row \<Rightarrow> jewelry_item_row" where
  "decrement now items j =
     (if \<exists>item \<in> set items. ji_id (snd item) = ji_id j
      then j\<lparr> ji_stock_quantity := ji_stock_quantity j -
                 sum_list (map (\<lambda>item. ci_quantity (fst item)) (filter (\<lambda>item. ji_id (snd item) = ji_id j) items)),
              ji_updated_at := now \<rparr>
      else j)"

text \<open>The exact total of a cart in hundredths: the sum of price times quantity.\<close>

definition exact_total :: "cart_join_row list \<Rightarrow> int" where
  "exact_total cartItems = sum_list (map (\<lambda>item. ji_price (snd item) * ci_quantity (fst item)) cartItems)"

section \<open>Catalog and order administration\<close>

text \<open>
  The handlers behind the admin procedures. Their \<open>id\<close> arguments are JavaScript numbers;
  the model takes them from \<^typ>\<open>int\<close>, the values that can name a row.
\<close>

record CreateJewelryItemInput =
  cji_name :: string
  cji_description :: string
  cji_materials :: string
  cji_category :: jewelry_category
  cji_price :: number
  cji_image_url :: "string option"
  cji_stock_quantity :: int
  cji_is_featured :: "bool option"

definition createJewelryItem :: "int \<Rightarrow> CreateJewelryItemInput \<Rightarrow> db \<Rightarrow> (error + JewelryItem) \<times> db" where
  "createJewelryItem now input d =
     (case numeric_10_2 (number_toString (cji_price input)) of
        None \<Rightarrow> (Inl NumericFieldOverflow, d)
      | Some price \<Rightarrow>
          (let jewelryItem =
                 \<lparr> ji_id = jewelry_items_seq d, ji_name = cji_name input,
                   ji_description = cji_description input, ji_materials = cji_materials input,
                   ji_category = cji_category input, ji_price = price,
                   ji_image_url = cji_image_url input, ji_stock_quantity = cji_stock_quantity input,
                   ji_is_featured = (case cji_is_featured input of None \<Rightarrow> False | Some b \<Rightarrow> b),
                   ji_created_at = now, ji_updated_at = now \<rparr>
           in (Inr (jewelry_item_of_row jewelryItem),
               d\<lparr> jewelryItemsTable := jewelryItemsTable d @ [jewelryItem],
                   jewelry_items_seq := jewelry_items_seq d + 1 \<rparr>)))"

record UpdateJewelryItemInput =
  uji_id :: int
  uji_name :: "string option"
  uji_description :: "string option"
  uji_materials :: "string option"
  uji_category :: "jewelry_category option"
  uji_price :: "number option"
  uji_image_url :: "string option option"
  uji_stock_quantity :: "int option"
  uji_is_featured :: "bool option"

definition no_update_data :: "UpdateJewelryItemInput \<Rightarrow> bool" where
  "no_update_data input \<longleftrightarrow>
     uji_name input = None \<and> uji_description input = None \<and> uji_materials input = None \<and>
     uji_category input = None \<and> uji_price input = None \<and> uji_image_url input = None \<and>
     uji_stock_quantity input = None \<and> uji_is_featured input = None"

definition set_update_values :: "int \<Rightarrow> UpdateJewelryItemInput \<Rightarrow> numeric option \<Rightarrow> jewelry_item_row \<Rightarrow> jewelry_item_row" where
  "set_update_values now input price j =
     j\<lparr> ji_name := (case uji_name input of None \<Rightarrow> ji_name j | Some v \<Rightarrow> v),
        ji_description := (case uji_description input of None \<Rightarrow> ji_description j | Some v \<Rightarrow> v),
        ji_materials := (case uji_materials input of None \<Rightarrow> ji_materials j | Some v \<Rightarrow> v),
        ji_category := (case uji_category input of None \<Rightarrow> ji_category j | Some v \<Rightarrow> v),
        ji_price := (case price of None \<Rightarrow> ji_price j | Some v \<Rightarrow> v),
        ji_image_url := (case uji_image_url input of None \<Rightarrow> ji_image_url j | Some v \<Rightarrow> v),
        ji_stock_quantity := (case uji_stock_quantity input of None \<Rightarrow> ji_stock_quantity j | Some v \<Rightarrow> v),
        ji_is_featured := (case uji_is_featured input of None \<Rightarrow> ji_is_featured j | Some v \<Rightarrow> v),
        ji_updated_at := now \<rparr>"

definition update_jewelry_rows ::
  "int \<Rightarrow> UpdateJewelryItemInput \<Rightarrow> numeric option \<Rightarrow> db \<Rightarrow> (error + JewelryItem option) \<times> db" where
  "update_jewelry_rows now input price d =
     (let d' = d\<lparr> jewelryItemsTable :=
                    map (\<lambda>j. if ji_id j = uji_id input then set_update_values now input price j else j)
                        (jewelryItemsTable d) \<rparr>
      in case filter (\<lambda>j. ji_id j = uji_id input) (jewelryItemsTable d') of
           [] \<Rightarrow> (Inr None, d')
         | item # _ \<Rightarrow> (Inr (Some (jewelry_item_of_row item)), d'))"

definition updateJewelryItem ::
  "int \<Rightarrow> UpdateJewelryItemInput \<Rightarrow> db \<Rightarrow> (error + JewelryItem option) \<times> db" where
  "updateJewelryItem now input d =
     (if no_update_data input then
        (case filter (\<lambda>j. ji_id j = uji_id input) (jewelryItemsTable d) of
           [] \<Rightarrow> (Inr None, d)
         | item # _ \<Rightarrow> (Inr (Some (jewelry_item_of_row item)), d))
      else
        (case uji_price input of
           None \<Rightarrow> update_jewelry_rows now input None d
         | Some p \<Rightarrow>
             (case numeric_10_2 (number_toString p) of
                None \<Rightarrow> (Inl NumericFieldOverflow, d)
              | Some price \<Rightarrow> update_jewelry_rows now input (Some price) d)))"

definition deleteJewelryItem :: "int \<Rightarrow> db \<Rightarrow> (error + bool) \<times> db" where
  "deleteJewelryItem i d =
     (Inr (filter (\<lambda>j. ji_id j = i) (jewelryItemsTable d) \<noteq> []),
      d\<lparr> jewelryItemsTable := filter (\<lambda>j. ji_id j \<noteq> i) (jewelryItemsTable d) \<rparr>)"

definition select_order_items :: "db \<Rightarrow> int \<Rightarrow> OrderWithItems_item list" where
  "select_order_items d i =
     concat (map (\<lambda>oi. map (\<lambda>j. \<lparr> line_id = oi_id oi, line_quantity = oi_quantity oi,
                                    line_price_at_time = parseFloat (oi_price_at_time oi),
                                    line_jewelry_item = jewelry_item_of_row j \<rparr>)
                            (filter (\<lambda>j. oi_jewelry_item_id oi = ji_id j) (jewelryItemsTable d)))
                 (filter (\<lambda>oi. oi_order_id oi = i) (orderItemsTable d)))"

definition updateOrderStatus :: "int \<Rightarrow> int \<Rightarrow> order_status \<Rightarrow> db \<Rightarrow> (error + OrderWithItems option) \<times> db" where
  "updateOrderStatus now i status d =
     (let d' = d\<lparr> ordersTable :=
                    map (\<lambda>order. if ord_id order = i
                                  then order\<lparr> ord_status := status, ord_updated_at := now \<rparr> else order)
                        (ordersTable d) \<rparr>
      in case filter (\<lambda>order. ord_id order = i) (ordersTable d') of
           [] \<Rightarrow> (Inr None, d')
         | updatedOrder # _ \<Rightarrow> (Inr (Some (order_with_items updatedOrder (select_order_items d' i))), d'))"

section \<open>JSON values and the runtime\<close>

text \<open>
  What \<^verbatim>\<open>JSON.parse\<close> returns. An object keeps its members in the order of the text; a
  member read finds the last one of that name.
\<close>

datatype json =
    JNull
  | JBool bool
  | JNumber number
  | JString string
  | JArray "json list"
  | JObject "(string \<times> json) list"

text \<open>
  The value of a property read \<^verbatim>\<open>payload.k\<close>. The handlers read \<^verbatim>\<open>exp\<close>, \<^verbatim>\<open>sub\<close> and
  \<^verbatim>\<open>userId\<close>: reading from null throws, an object answers with its member, a string
  answers \<^verbatim>\<open>sub\<close> with the method of that name, and everything else is undefined.
\<close>

datatype js_value = Undefined | Value json | Function

fun property :: "json \<Rightarrow> string \<Rightarrow> error + js_value" where
  "property JNull k = Inl TypeError"
| "property (JObject members) k =
     Inr (case map_of (rev members) k of None \<Rightarrow> Undefined | Some v \<Rightarrow> Value v)"
| "property (JString s) k = Inr (if k = ''sub'' then Function else Undefined)"
| "property v k = Inr Undefined"

fun truthy :: "js_value \<Rightarrow> bool" where
  "truthy Undefined = False"
| "truthy (Value JNull) = False"
| "truthy (Value (JBool b)) = b"
| "truthy (Value (JNumber n)) = (n \<noteq> 0)"
| "truthy (Value (JString s)) = (s \<noteq> [])"
| "truthy v = True"

text \<open>
  The functions of the runtime and of the libraries that the two authentication handlers
  call, and the environment variable they read. They are parameters of the model:
  \<^item> \<open>rt_atob\<close>: \<^verbatim>\<open>atob\<close>, \<open>None\<close> when it throws;
  \<^item> \<open>rt_json_parse\<close>: \<^verbatim>\<open>JSON.parse\<close>, \<open>None\<close> when it throws;
  \<^item> \<open>rt_json_stringify\<close> and \<open>rt_base64url\<close>: the encoders inside \<^verbatim>\<open>jwt.sign\<close>;
  \<^item> \<open>rt_hmac_sha256 key data\<close>: the HMAC with SHA-256;
  \<^item> \<open>rt_string_to_number\<close>: the numeric value of a string or of an array in an arithmetic
    expression, \<open>None\<close> for NaN;
  \<^item> \<open>rt_password_verify\<close>: \<^verbatim>\<open>Bun.password.verify\<close>, \<open>None\<close> when it throws;
  \<^item> \<open>rt_JWT_SECRET\<close>: \<^verbatim>\<open>process.env['JWT_SECRET']\<close>.
\<close>

record runtime =
  rt_atob :: "string \<Rightarrow> string option"
  rt_json_parse :: "string \<Rightarrow> json option"
  rt_json_stringify :: "json \<Rightarrow> string"
  rt_base64url :: "string \<Rightarrow> string"
  rt_hmac_sha256 :: "string \<Rightarrow> string \<Rightarrow> string"
  rt_string_to_number :: "json \<Rightarrow> number option"
  rt_password_verify :: "string \<Rightarrow> string \<Rightarrow> bool option"
  rt_JWT_SECRET :: "string option"

text \<open>\<^verbatim>\<open>process.env['JWT_SECRET'] || 'default-secret-key'\<close>.\<close>

definition secretKey :: "runtime \<Rightarrow> string" where
  "secretKey rt = (case rt_JWT_SECRET rt of
                     None \<Rightarrow> ''default-secret-key''
                   | Some s \<Rightarrow> if s = [] then ''default-secret-key'' else s)"

text \<open>The operand of \<^verbatim>\<open>payload.exp * 1000\<close> as a number, \<open>None\<close> for NaN.\<close>

fun to_number :: "runtime \<Rightarrow> js_value \<Rightarrow> number option" where
  "to_number rt Undefined = None"
| "to_number rt Function = None"
| "to_number rt (Value JNull) = Some 0"
| "to_number rt (Value (JBool b)) = Some (if b then 1 else 0)"
| "to_number rt (Value (JNumber n)) = Some n"
| "to_number rt (Value (JObject members)) = None"
| "to_number rt (Value v) = rt_string_to_number rt v"

text \<open>\<^verbatim>\<open>token.split('.')\<close>.\<close>

fun split_on :: "char \<Rightarrow> string \<Rightarrow> string list" where
  "split_on sep [] = [[]]"
| "split_on sep (c # cs) =
     (if c = sep then [] # split_on sep cs
      else (case split_on sep cs of
              [] \<Rightarrow> [[c]]
            | part # parts \<Rightarrow> (c # part) # parts))"

section \<open>\<^verbatim>\<open>verifyAdminToken\<close>\<close>

text \<open>\<^verbatim>\<open>payload.exp && Date.now() >= payload.exp * 1000\<close>; \<open>now\<close> is \<^verbatim>\<open>Date.now()\<close>.\<close>

definition token_expired :: "runtime \<Rightarrow> int \<Rightarrow> js_value \<Rightarrow> bool" where
  "token_expired rt now exp_claim \<longleftrightarrow>
     truthy exp_claim \<and>
     (case to_number rt exp_claim of None \<Rightarrow> False | Some n \<Rightarrow> js_mul n 1000 \<le> of_int now)"

text \<open>\<^verbatim>\<open>signatureB64.replace(/-/g, '+').replace(/_/g, '/')\<close>.\<close>

definition from_url_alphabet :: "string \<Rightarrow> string" where
  "from_url_alphabet s =
     map (\<lambda>c. if c = CHR ''_'' then CHR ''/'' else c) (map (\<lambda>c. if c = CHR ''-'' then CHR ''+'' else c) s)"

definition admin_user_of_row :: "admin_user_row \<Rightarrow> AdminUser" where
  "admin_user_of_row adminUser =
     \<lparr> admin_id = au_id adminUser, admin_username = au_username adminUser,
       admin_email = au_email adminUser, admin_password_hash = au_password_hash adminUser,
       admin_created_at = au_created_at adminUser, admin_updated_at = au_updated_at adminUser \<rparr>"

text \<open>
  The user id, \<^verbatim>\<open>payload.sub || payload.userId\<close>, must be a number other than zero. The
  query compares it with the integer column \<^verbatim>\<open>id\<close>; for a number that is not an integer
  the driver rejects the statement, which the handler's catch turns into the same null
  that an empty result gives.
\<close>

definition find_admin_user :: "db \<Rightarrow> js_value \<Rightarrow> AdminUser option" where
  "find_admin_user d userId =
     (case userId of
        Value (JNumber n) \<Rightarrow>
          (if n = 0 then None
           else (case filter (\<lambda>adminUser. of_int (au_id adminUser) = n) (adminUsersTable d) of
                   [] \<Rightarrow> None
                 | adminUser # _ \<Rightarrow> Some (admin_user_of_row adminUser)))
      | _ \<Rightarrow> None)"

text \<open>The body of the \<^verbatim>\<open>try\<close> block: \<open>Inl\<close> is an exception thrown inside it.\<close>

definition verify_token_body :: "runtime \<Rightarrow> int \<Rightarrow> db \<Rightarrow> string \<Rightarrow> error + AdminUser option" where
  "verify_token_body rt now d token =
     (if token = [] then Inr None
      else
        (case split_on CHR ''.'' token of
           [headerB64, payloadB64, signatureB64] \<Rightarrow>
             (case rt_atob rt headerB64 of
                None \<Rightarrow> Inl InvalidCharacterError
              | Some headerText \<Rightarrow>
             (case rt_json_parse rt headerText of
                None \<Rightarrow> Inl SyntaxError
              | Some header \<Rightarrow>
             (case rt_atob rt payloadB64 of
                None \<Rightarrow> Inl InvalidCharacterError
              | Some payloadText \<Rightarrow>
             (case rt_json_parse rt payloadText of
                None \<Rightarrow> Inl SyntaxError
              | Some payload \<Rightarrow>
             (case property payload ''exp'' of
                Inl e \<Rightarrow> Inl e
              | Inr exp_claim \<Rightarrow>
                  if token_expired rt now exp_claim then Inr None
                  else
                    (case rt_atob rt (from_url_alphabet signatureB64) of
                       None \<Rightarrow> Inl InvalidCharacterError
                     | Some signature \<Rightarrow>
                         if signature \<noteq> rt_hmac_sha256 rt (secretKey rt) (headerB64 @ ''.'' @ payloadB64)
                         then Inr None
                         else
                           (case (property payload ''sub'', property payload ''userId'') of
                              (Inr sub, Inr userId) \<Rightarrow>
                                Inr (find_admin_user d (if truthy sub then sub else userId))
                            | (Inl e, _) \<Rightarrow> Inl e
                            | (_, Inl e) \<Rightarrow> Inl e)))))))
         | _ \<Rightarrow> Inr None))"

text \<open>The handler: whatever the body throws is caught and answered with null.\<close>

definition verifyAdminToken :: "runtime \<Rightarrow> int \<Rightarrow> db \<Rightarrow> string \<Rightarrow> error + AdminUser option" where
  "verifyAdminToken rt now d token =
     (case verify_token_body rt now d token of
        Inl e \<Rightarrow> Inr None
      | Inr adminUser \<Rightarrow> Inr adminUser)"

section \<open>\<^verbatim>\<open>adminLogin\<close>\<close>

text \<open>
  \<^verbatim>\<open>jwt.sign(payload, secret, { expiresIn: '24h' })\<close> of the \<^verbatim>\<open>jsonwebtoken\<close> package, written
  out from RFC 7519 and the package's documentation: the claims are the payload's members
  followed by \<^verbatim>\<open>iat\<close>, the time in seconds, and \<^verbatim>\<open>exp\<close>, 24 hours later; the token is the
  base64url text of the header, of the claims and of the HMAC of the two, joined by dots.
\<close>

definition jwt_claims :: "(string \<times> json) list \<Rightarrow> int \<Rightarrow> json" where
  "jwt_claims payload now =
     JObject (payload @ [(''iat'', JNumber (of_int (now div 1000))),
                         (''exp'', JNumber (of_int (now div 1000 + 86400)))])"

definition jwt_header :: json where
  "jwt_header = JObject [(''alg'', JString ''HS256''), (''typ'', JString ''JWT'')]"

definition jwt_sign :: "runtime \<Rightarrow> (string \<times> json) list \<Rightarrow> string \<Rightarrow> int \<Rightarrow> string" where
  "jwt_sign rt payload secret now =
     (let headerB64 = rt_base64url rt (rt_json_stringify rt jwt_header);
          payloadB64 = rt_base64url rt (rt_json_stringify rt (jwt_claims payload now));
          signatureB64 = rt_base64url rt (rt_hmac_sha256 rt secret (headerB64 @ ''.'' @ payloadB64))
      in headerB64 @ ''.'' @ payloadB64 @ ''.'' @ signatureB64)"

record AdminLoginInput =
  login_username :: string
  login_password :: string

definition login_payload :: "admin_user_row \<Rightarrow> (string \<times> json) list" where
  "login_payload admin =
     [(''id'', JNumber (of_int (au_id admin))),
      (''username'', JString (au_username admin)),
      (''email'', JString (au_email admin))]"

text \<open>\<open>Inr (Some token)\<close> is the returned \<^verbatim>\<open>{ token }\<close>.\<close>

definition adminLogin :: "runtime \<Rightarrow> int \<Rightarrow> db \<Rightarrow> AdminLoginInput \<Rightarrow> error + string option" where
  "adminLogin rt now d input =
     (case filter (\<lambda>admin. au_username admin = login_username input) (adminUsersTable d) of
        [] \<Rightarrow> Inr None
      | admin # _ \<Rightarrow>
          (case rt_password_verify rt (login_password input) (au_password_hash admin) of
             None \<Rightarrow> Inl PasswordError
           | Some isPasswordValid \<Rightarrow>
               if \<not> isPasswordValid then Inr None
               else Inr (Some (jwt_sign rt (login_payload admin) (secretKey rt) now))))"

section \<open>The admin procedures of \<^verbatim>\<open>index.ts\<close>\<close>

text \<open>
  A procedure returns what its promise settles to, the database afterwards and the list of
  the handler functions it called, in the order of the calls. The list is not part of the
  program: it records the order in which the resolver reaches the authentication guard
  and the handler. The input has passed the procedure's zod schema.
\<close>

datatype call =
    Call_verifyAdminToken string
  | Call_createJewelryItem
  | Call_updateJewelryItem
  | Call_deleteJewelryItem
  | Call_updateOrderStatus

definition createJewelryItem_procedure ::
  "runtime \<Rightarrow> int \<Rightarrow> string \<Rightarrow> CreateJewelryItemInput \<Rightarrow> db \<Rightarrow> (error + JewelryItem) \<times> db \<times> call list" where
  "createJewelryItem_procedure rt now token jewelryInput d =
     (case verifyAdminToken rt now d token of
        Inl e \<Rightarrow> (Inl e, d, [Call_verifyAdminToken token])
      | Inr None \<Rightarrow> (Inl Unauthorized, d, [Call_verifyAdminToken token])
      | Inr (Some adminUser) \<Rightarrow>
          (case createJewelryItem now jewelryInput d of
             (r, d') \<Rightarrow> (r, d', [Call_verifyAdminToken token, Call_createJewelryItem])))"

definition updateJewelryItem_procedure ::
  "runtime \<Rightarrow> int \<Rightarrow> string \<Rightarrow> UpdateJewelryItemInput \<Rightarrow> db
     \<Rightarrow> (error + JewelryItem option) \<times> db \<times> call list" where
  "updateJewelryItem_procedure rt now token jewelryInput d =
     (case verifyAdminToken rt now d token of
        Inl e \<Rightarrow> (Inl e, d, [Call_verifyAdminToken token])
      | Inr None \<Rightarrow> (Inl Unauthorized, d, [Call_verifyAdminToken token])
      | Inr (Some adminUser) \<Rightarrow>
          (case updateJewelryItem now jewelryInput d of
             (r, d') \<Rightarrow> (r, d', [Call_verifyAdminToken token, Call_updateJewelryItem])))"

definition deleteJewelryItem_procedure ::
  "runtime \<Rightarrow> int \<Rightarrow> string \<Rightarrow> int \<Rightarrow> db \<Rightarrow> (error + bool) \<times> db \<times> call list" where
  "deleteJewelryItem_procedure rt now token i d =
     (case verifyAdminToken rt now d token of
        Inl e \<Rightarrow> (Inl e, d, [Call_verifyAdminToken token])
      | Inr None \<Rightarrow> (Inl Unauthorized, d, [Call_verifyAdminToken token])
      | Inr (Some adminUser) \<Rightarrow>
          (case deleteJewelryItem i d of
             (r, d') \<Rightarrow> (r, d', [Call_verifyAdminToken token, Call_deleteJewelryItem])))"

definition updateOrderStatus_procedure ::
  "runtime \<Rightarrow> int \<Rightarrow> string \<Rightarrow> int \<Rightarrow> order_status \<Rightarrow> db
     \<Rightarrow> (error + OrderWithItems option) \<times> db \<times> call list" where
  "updateOrderStatus_procedure rt now token i status d =
     (case verifyAdminToken rt now d token of
        Inl e \<Rightarrow> (Inl e, d, [Call_verifyAdminToken token])
      | Inr None \<Rightarrow> (Inl Unauthorized, d, [Call_verifyAdminToken token])
      | Inr (Some adminUser) \<Rightarrow>
          (case updateOrderStatus now i status d of
             (r, d') \<Rightarrow> (r, d', [Call_verifyAdminToken token, Call_updateOrderStatus])))"

text \<open>
  What the claim about the guard asks of the outcome of a procedure: the first call is the
  verification of the token; when that returns null the outcome is the authorization
  failure, with the database untouched and no further call; and the handler is called only
  after a verification that returned an admin user.
\<close>

definition guarded_by_token ::
  "runtime \<Rightarrow> int \<Rightarrow> db \<Rightarrow> string \<Rightarrow> call \<Rightarrow> (error + 'a) \<times> db \<times> call list \<Rightarrow> bool" where
  "guarded_by_token rt now d token handler outcome \<longleftrightarrow>
     (case outcome of (r, d', calls) \<Rightarrow>
        take 1 calls = [Call_verifyAdminToken token] \<and>
        (verifyAdminToken rt now d token = Inr None \<longrightarrow>
           r = Inl Unauthorized \<and> d' = d \<and> calls = [Call_verifyAdminToken token]) \<and>
        (handler \<in> set calls \<longrightarrow> (\<exists>adminUser. verifyAdminToken rt now d token = Inr (Some adminUser))))"

section \<open>Example data\<close>

text \<open>Rows and databases on which the theorems below are evaluated.\<close>

definition jewelry_row :: "int \<Rightarrow> numeric \<Rightarrow> int \<Rightarrow> jewelry_item_row" where
  "jewelry_row i p s =
     \<lparr> ji_id = i, ji_name = ''Diamond Ring'', ji_description = ''Beautiful diamond engagement ring'',
       ji_materials = ''Gold, Diamond'', ji_category = rings, ji_price = p,
       ji_image_url = None, ji_stock_quantity = s, ji_is_featured = True,
       ji_created_at = 0, ji_updated_at = 0 \<rparr>"

definition cart_row :: "int \<Rightarrow> string \<Rightarrow> int \<Rightarrow> int \<Rightarrow> cart_item_row" where
  "cart_row i sid item q =
     \<lparr> ci_id = i, ci_session_id = sid, ci_jewelry_item_id = item, ci_quantity = q,
       ci_created_at = 0, ci_updated_at = 0 \<rparr>"

definition shop :: "jewelry_item_row list \<Rightarrow> cart_item_row list \<Rightarrow> db" where
  "shop items cart =
     \<lparr> jewelryItemsTable = items, adminUsersTable = [], cartItemsTable = cart,
       ordersTable = [], orderItemsTable = [],
       jewelry_items_seq = 1 + int (length items), cart_items_seq = 1 + int (length cart),
       orders_seq = 1, order_items_seq = 1 \<rparr>"

definition checkout :: "string \<Rightarrow> CreateOrderInput" where
  "checkout sid =
     \<lparr> coi_session_id = sid, coi_customer_name = ''John Doe'',
       coi_customer_email = ''john@example.com'', coi_customer_phone = None,
       coi_shipping_address = ''123 Main St'', coi_billing_address = None, coi_notes = None \<rparr>"

definition two_item_shop :: db where
  "two_item_shop = shop [jewelry_row 1 1999 5, jewelry_row 2 599 10]
                        [cart_row 1 ''s'' 1 2, cart_row 2 ''s'' 2 1, cart_row 3 ''t'' 2 4]"



text \<open>
  An admin user, and a runtime small enough to evaluate: base64 is the identity, the JSON
  codec knows the three texts \<open>H\<close> (the header), \<open>L\<close> (the claims \<open>adminLogin\<close> signs for the
  admin user at time 1000) and \<open>Z\<close> (a payload with subject 1 and expiry 0), and the MAC of
  a key and a text is the two joined, in the base64 alphabet.
\<close>

definition admin_row :: admin_user_row where
  "admin_row = \<lparr> au_id = 1, au_username = ''testadmin'', au_email = ''admin@test.com'',
                 au_password_hash = ''hash(testpassword123)'', au_created_at = 0, au_updated_at = 0 \<rparr>"

definition admin_db :: db where
  "admin_db = \<lparr> jewelryItemsTable = [jewelry_row 1 1999 5], adminUsersTable = [admin_row],
                cartItemsTable = [], ordersTable = [], orderItemsTable = [],
                jewelry_items_seq = 2, cart_items_seq = 1, orders_seq = 1, order_items_seq = 1 \<rparr>"

definition table_hmac :: "string \<Rightarrow> string \<Rightarrow> string" where
  "table_hmac key data =
     map (\<lambda>c. if c = CHR ''.'' \<or> c = CHR ''-'' \<or> c = CHR ''_'' then CHR ''+'' else c) (key @ '':'' @ data)"

definition table_runtime :: runtime where
  "table_runtime =
     \<lparr> rt_atob = Some,
       rt_json_parse = (\<lambda>s. if s = ''H'' then Some jwt_header
                            else if s = ''L'' then Some (jwt_claims (login_payload admin_row) 1000)
                            else if s = ''Z'' then Some (JObject [(''sub'', JNumber 1), (''exp'', JNumber 0)])
                            else None),
       rt_json_stringify = (\<lambda>j. if j = jwt_header then ''H''
                                else if j = jwt_claims (login_payload admin_row) 1000 then ''L'' else ''Z''),
       rt_base64url = (\<lambda>s. s),
       rt_hmac_sha256 = table_hmac,
       rt_string_to_number = (\<lambda>v. None),
       rt_password_verify = (\<lambda>password hash. Some (hash = ''hash('' @ password @ '')'')),
       rt_JWT_SECRET = None \<rparr>"

section \<open>Binary64 arithmetic\<close>

lemma pow2_powi: "pow2 e = 2 powi e"
  by (simp add: pow2_def power_int_def inverse_eq_divide power_one_over)

lemma pow2_pos [simp]: "0 < pow2 e"
  by (simp add: pow2_powi)

lemma pow2_nonneg [simp]: "0 \<le> pow2 e"
  by (rule less_imp_le) simp

lemma pow2_neq0 [simp]: "pow2 e \<noteq> 0"
  by (simp add: pow2_powi)


lemma pow2_diff: "pow2 (a - b) = pow2 a / pow2 b"
  by (simp add: pow2_powi power_int_diff)

lemma pow2_nat: "pow2 (int n) = 2 ^ n"
  by (simp add: pow2_def)

lemma ilog2_le:
  assumes "0 < x"
  shows "pow2 (ilog2 x) \<le> x"
proof -
  obtain p q where pq: "quotient_of x = (p, q)" by (cases "quotient_of x")
  then have q: "0 < q" and x: "x = of_int p / of_int q"
    using quotient_of_denom_pos quotient_of_div by blast+
  with assms have p: "0 < p"
    by (simp add: zero_less_divide_iff)
  let ?e0 = "bitlen p - bitlen q"
  show ?thesis
  proof (cases "pow2 ?e0 \<le> x")
    case True
    then show ?thesis by (simp add: ilog2_def pq Let_def)
  next
    case False
    from bitlen_bounds [OF p] have lo: "(2::rat) ^ nat (bitlen p - 1) \<le> of_int p"
      by (metis of_int_le_iff of_int_numeral of_int_power)
    from bitlen_bounds [OF q] have hi: "of_int q \<le> (2::rat) ^ nat (bitlen q)"
      by (metis less_imp_le of_int_le_iff of_int_numeral of_int_power)
    have bp: "1 \<le> bitlen p" using p by (simp add: bitlen_alt_def)
    have bq: "0 \<le> bitlen q" by (rule bitlen_nonneg)
    have "pow2 (?e0 - 1) = pow2 (bitlen p - 1) / pow2 (bitlen q)"
      by (simp add: pow2_diff [symmetric] algebra_simps)
    also have "\<dots> = 2 ^ nat (bitlen p - 1) / 2 ^ nat (bitlen q)"
      using bp bq by (simp add: pow2_def)
    also have "\<dots> \<le> of_int p / of_int q"
      using lo hi q p by (intro frac_le) simp_all
    finally have "pow2 (?e0 - 1) \<le> x"
      by (simp add: x)
    moreover have "ilog2 x = ?e0 - 1"
      using False by (simp add: ilog2_def pq Let_def)
    ultimately show ?thesis by simp
  qed
qed

lemma ilog2_less:
  assumes "0 < x"
  shows "x < pow2 (ilog2 x + 1)"
proof -
  obtain p q where pq: "quotient_of x = (p, q)" by (cases "quotient_of x")
  then have q: "0 < q" and x: "x = of_int p / of_int q"
    using quotient_of_denom_pos quotient_of_div by blast+
  with assms have p: "0 < p"
    by (simp add: zero_less_divide_iff)
  let ?e0 = "bitlen p - bitlen q"
  show ?thesis
  proof (cases "pow2 ?e0 \<le> x")
    case True
    from bitlen_bounds [OF p] have hi: "of_int p < (2::rat) ^ nat (bitlen p)"
      by (metis of_int_less_iff of_int_numeral of_int_power)
    from bitlen_bounds [OF q] have lo: "(2::rat) ^ nat (bitlen q - 1) \<le> of_int q"
      by (metis of_int_le_iff of_int_numeral of_int_power)
    have bq: "1 \<le> bitlen q" using q by (simp add: bitlen_alt_def)
    have bp: "0 \<le> bitlen p" by (rule bitlen_nonneg)
    have "(of_int p :: rat) / of_int q < 2 ^ nat (bitlen p) / 2 ^ nat (bitlen q - 1)"
      using hi lo q p by (intro frac_less) simp_all
    also have "\<dots> = pow2 (bitlen p) / pow2 (bitlen q - 1)"
      using bp bq by (simp add: pow2_def)
    also have "\<dots> = pow2 (?e0 + 1)"
      by (simp add: pow2_diff [symmetric] algebra_simps)
    finally have "x < pow2 (?e0 + 1)" by (simp add: x)
    moreover have "ilog2 x = ?e0"
      using True by (simp add: ilog2_def pq Let_def)
    ultimately show ?thesis by simp
  next
    case False
    then have "ilog2 x = ?e0 - 1"
      by (simp add: ilog2_def pq Let_def)
    with False show ?thesis by simp
  qed
qed

lemma round_half_even_error: "\<bar>of_int (round_half_even m) - m\<bar> \<le> 1 / 2"
proof -
  have "of_int \<lfloor>m\<rfloor> \<le> m" "m < of_int \<lfloor>m\<rfloor> + 1" by linarith+
  then show ?thesis
    by (auto simp: round_half_even_def Let_def abs_le_iff)
qed


lemma round_half_even_nonneg: "0 \<le> m \<Longrightarrow> 0 \<le> round_half_even m"
  by (auto simp: round_half_even_def Let_def)

lemma binary64_error: "\<bar>binary64 x - x\<bar> \<le> \<bar>x\<bar> / 2 ^ 53"
proof (cases "x = 0")
  case True
  then show ?thesis by (simp add: binary64_def)
next
  case False
  let ?e = "ilog2 \<bar>x\<bar>"
  let ?ulp = "pow2 (?e - 52)"
  let ?r = "round_half_even (x / ?ulp)"
  have b: "binary64 x = of_int ?r * ?ulp"
    using False by (simp add: binary64_def Let_def)
  have "of_int ?r * ?ulp - x = (of_int ?r - x / ?ulp) * ?ulp"
    by (simp add: left_diff_distrib)
  then have "\<bar>of_int ?r * ?ulp - x\<bar> = \<bar>of_int ?r - x / ?ulp\<bar> * ?ulp"
    by (simp only: abs_mult) simp
  also have "\<dots> \<le> 1 / 2 * ?ulp"
    by (intro mult_right_mono round_half_even_error) simp
  also have "\<dots> = pow2 ?e / 2 ^ 53"
  proof -
    have "pow2 (?e - 52) = pow2 ?e / pow2 52" by (rule pow2_diff)
    also have "pow2 52 = 2 ^ 52" by (simp add: pow2_def)
    finally show ?thesis by simp
  qed
  also have "\<dots> \<le> \<bar>x\<bar> / 2 ^ 53"
    using ilog2_le [of "\<bar>x\<bar>"] False by (simp add: divide_right_mono)
  finally show ?thesis by (simp add: b)
qed

lemma binary64_nonneg: "0 \<le> x \<Longrightarrow> 0 \<le> binary64 x"
  by (auto simp: binary64_def Let_def intro!: mult_nonneg_nonneg round_half_even_nonneg)


lemma round_half_away_near:
  assumes "\<bar>r - of_int h\<bar> < 1 / 2"
  shows "round_half_away r = h"
proof -
  from assms have b: "r - of_int h < 1 / 2" "of_int h - r < 1 / 2"
    by linarith+
  show ?thesis
  proof (cases "0 \<le> r")
    case True
    have "\<lfloor>r + 1 / 2\<rfloor> = h"
      by (rule floor_unique) (use b in linarith)+
    with True show ?thesis by (simp add: round_half_away_def)
  next
    case False
    have "\<lfloor>- r + 1 / 2\<rfloor> = - h"
      by (rule floor_unique) (use b in \<open>simp; linarith\<close>)+
    with False show ?thesis by (simp add: round_half_away_def)
  qed
qed

lemma shortest_digits_reads_back:
  "shortest_digits x n ks = x \<or> binary64 (shortest_digits x n ks) = x"
proof (induction ks)
  case Nil
  then show ?case by simp
next
  case (Cons k ks)
  have c: "\<forall>v \<in> set (digits_candidates x n k). binary64 v = x"
    by (auto simp: digits_candidates_def Let_def)
  show ?case
  proof (cases "digits_candidates x n k")
    case Nil
    with Cons show ?thesis by simp
  next
    case (Cons v vs)
    with c show ?thesis by (cases vs) auto
  qed
qed

lemma js_term_error:
  fixes p q :: rat
  assumes "0 \<le> p" and "0 \<le> q"
  shows "\<bar>binary64 (binary64 p * q) - p * q\<bar> \<le> 3 * (p * q) / 2 ^ 53"
proof -
  define u :: rat where "u = 1 / 2 ^ 53"
  have u: "0 \<le> u" "u \<le> 1" by (simp_all add: u_def)
  let ?fp = "binary64 p"
  have fp0: "0 \<le> ?fp" using assms(1) by (rule binary64_nonneg)
  have e1: "\<bar>?fp - p\<bar> \<le> p * u"
    using binary64_error [of p] assms(1) by (simp add: u_def)
  then have fp_le: "?fp \<le> p * (1 + u)"
    by (simp add: abs_le_iff algebra_simps)
  have a: "\<bar>?fp * q - p * q\<bar> \<le> p * q * u"
  proof -
    have "\<bar>?fp * q - p * q\<bar> = \<bar>?fp - p\<bar> * q"
      using assms(2) by (simp add: left_diff_distrib [symmetric] abs_mult)
    also have "\<dots> \<le> p * u * q"
      using e1 assms(2) by (rule mult_right_mono)
    finally show ?thesis by (simp add: mult_ac)
  qed
  have b: "\<bar>binary64 (?fp * q) - ?fp * q\<bar> \<le> 2 * (p * q * u)"
  proof -
    have "\<bar>binary64 (?fp * q) - ?fp * q\<bar> \<le> \<bar>?fp * q\<bar> * u"
      using binary64_error [of "?fp * q"] by (simp add: u_def)
    also have "\<bar>?fp * q\<bar> = ?fp * q"
      using fp0 assms(2) by simp
    also have "?fp * q * u \<le> p * (1 + u) * q * u"
      using fp_le assms(2) u(1) by (intro mult_right_mono)
    also have "\<dots> \<le> p * 2 * q * u"
      using u assms by (intro mult_right_mono mult_left_mono) simp_all
    finally show ?thesis by (simp add: mult_ac)
  qed
  have "\<bar>binary64 (?fp * q) - p * q\<bar> \<le> \<bar>binary64 (?fp * q) - ?fp * q\<bar> + \<bar>?fp * q - p * q\<bar>"
    by simp
  also have "\<dots> \<le> 3 * (p * q * u)"
    using a b by simp
  finally show ?thesis by (simp add: u_def)
qed

lemma exact_total_nonneg:
  "\<forall>item \<in> set items. 0 \<le> ji_price (snd item) \<and> 0 \<le> ci_quantity (fst item) \<Longrightarrow> 0 \<le> exact_total items"
  by (force simp: exact_total_def intro!: sum_list_nonneg mult_nonneg_nonneg)

lemma exact_total_Cons:
  "exact_total (item # rest) = ji_price (snd item) * ci_quantity (fst item) + exact_total rest"
  by (simp add: exact_total_def)

lemma calculate_total_error:
  fixes B :: rat
  assumes "\<forall>item \<in> set items. 0 \<le> ji_price (snd item) \<and> 0 \<le> ci_quantity (fst item)"
    and "0 \<le> S" and "S + of_int (exact_total items) / 100 \<le> B"
    and "\<bar>acc - S\<bar> \<le> E" and "E + 6 * B / 2 ^ 53 * of_nat (length items) \<le> B"
  shows "\<bar>calculate_total acc items - (S + of_int (exact_total items) / 100)\<bar>
           \<le> E + 6 * B / 2 ^ 53 * of_nat (length items)"
  using assms
proof (induction items arbitrary: acc S E)
  case Nil
  then show ?case by (simp add: exact_total_def)
next
  case (Cons item rest)
  define u :: rat where "u = 1 / 2 ^ 53"
  have u: "0 \<le> u" "3 * u \<le> 1" by (simp_all add: u_def)
  define p :: rat where "p = of_int (ji_price (snd item)) / 100"
  define q :: rat where "q = of_int (ci_quantity (fst item))"
  define t where "t = binary64 (binary64 p * q)"
  define s where "s = acc + t"
  have pq0: "0 \<le> p" "0 \<le> q"
    using Cons.prems(1) by (simp_all add: p_def q_def)
  have rest0: "0 \<le> exact_total rest"
    using Cons.prems(1) by (intro exact_total_nonneg) simp
  have E0: "0 \<le> E" using Cons.prems(4) by linarith
  have all0: "0 \<le> (of_int (exact_total (item # rest)) :: rat) / 100"
    using exact_total_nonneg [OF Cons.prems(1)] by simp
  have B0: "0 \<le> B" using Cons.prems(2,3) all0 by linarith
  have split: "of_int (exact_total (item # rest)) / 100 = p * q + of_int (exact_total rest) / (100::rat)"
    by (simp add: exact_total_Cons p_def q_def add_divide_distrib)
  have rest0': "0 \<le> (of_int (exact_total rest) :: rat) / 100"
    using rest0 by simp
  have pqB: "S + p * q \<le> B"
    using Cons.prems(3) rest0' unfolding split by linarith
  have pq: "0 \<le> p * q" using pq0 by simp
  have uB: "0 \<le> u * B" using u B0 by simp
  have EB: "E + 6 * (u * B) \<le> B"
  proof -
    have "6 * B / 2 ^ 53 * 1 \<le> 6 * B / 2 ^ 53 * of_nat (length (item # rest))"
      using B0 by (intro mult_left_mono) simp_all
    with Cons.prems(5) show ?thesis by (simp add: u_def)
  qed
  have t_err: "\<bar>t - p * q\<bar> \<le> 3 * (u * B)"
  proof -
    have "\<bar>t - p * q\<bar> \<le> 3 * (p * q) * u"
      using js_term_error [OF pq0] by (simp add: t_def u_def)
    also have "\<dots> \<le> 3 * B * u"
      using pqB Cons.prems(2) u(1) by (intro mult_right_mono mult_left_mono) simp_all
    finally show ?thesis by (simp add: mult_ac)
  qed
  have s_err: "\<bar>s - (S + p * q)\<bar> \<le> E + 3 * (u * B)"
    using t_err Cons.prems(4) unfolding s_def by linarith
  have s_abs: "\<bar>s\<bar> \<le> 3 * B"
    using s_err pqB Cons.prems(2) pq EB uB E0 B0 by linarith
  have r_err: "\<bar>binary64 s - s\<bar> \<le> 3 * (u * B)"
  proof -
    have "\<bar>binary64 s - s\<bar> \<le> \<bar>s\<bar> * u"
      using binary64_error [of s] by (simp add: u_def)
    also have "\<dots> \<le> 3 * B * u"
      using s_abs u(1) by (rule mult_right_mono)
    finally show ?thesis by (simp add: mult_ac)
  qed
  have acc': "\<bar>binary64 s - (S + p * q)\<bar> \<le> E + 6 * (u * B)"
    using r_err s_err by linarith
  have step: "calculate_total acc (item # rest) = calculate_total (binary64 s) rest"
    by (simp add: js_add_def js_mul_def parseFloat_def s_def t_def p_def q_def)
  have IH: "\<bar>calculate_total (binary64 s) rest - (S + p * q + of_int (exact_total rest) / 100)\<bar>
          \<le> (E + 6 * (u * B)) + 6 * B / 2 ^ 53 * of_nat (length rest)"
  proof (rule Cons.IH)
    show "\<forall>item \<in> set rest. 0 \<le> ji_price (snd item) \<and> 0 \<le> ci_quantity (fst item)"
      using Cons.prems(1) by simp
    show "0 \<le> S + p * q" using Cons.prems(2) pq0 by simp
    show "S + p * q + of_int (exact_total rest) / 100 \<le> B"
      using Cons.prems(3) by (simp add: split add.assoc)
    show "\<bar>binary64 s - (S + p * q)\<bar> \<le> E + 6 * (u * B)" by (rule acc')
    show "E + 6 * (u * B) + 6 * B / 2 ^ 53 * of_nat (length rest) \<le> B"
      using Cons.prems(5) by (simp add: u_def algebra_simps add_divide_distrib)
  qed
  show ?case
    using IH unfolding step split by (simp add: u_def algebra_simps add_divide_distrib)
qed

section \<open>Rejected orders\<close>

lemma insufficient_stock_iff:
  "insufficient_stock xs \<longleftrightarrow>
     (\<exists>item \<in> set xs. ci_quantity (fst item) > ji_stock_quantity (snd item))"
  by (induction xs) auto

lemma set_select_cart_items:
  "set (select_cart_items d sid) =
     {(c, j). c \<in> set (cartItemsTable d) \<and> ci_session_id c = sid \<and>
              j \<in> set (jewelryItemsTable d) \<and> ci_jewelry_item_id c = ji_id j}"
  by (auto simp: select_cart_items_def)

lemma select_cart_items_no_lines:
  "filter (\<lambda>c. ci_session_id c = sid) (cartItemsTable d) = [] \<Longrightarrow> select_cart_items d sid = []"
  by (simp add: select_cart_items_def)

lemma createOrder_null_if_empty:
  "select_cart_items d (coi_session_id input) = [] \<Longrightarrow> createOrder now input d = (Inr None, d)"
  by (simp add: createOrder_def)

lemma createOrder_null_if_insufficient:
  assumes "(c, j) \<in> set (select_cart_items d (coi_session_id input))"
    and "ci_quantity c > ji_stock_quantity j"
  shows "createOrder now input d = (Inr None, d)"
proof -
  have "insufficient_stock (select_cart_items d (coi_session_id input))"
    using assms by (force simp: insufficient_stock_iff)
  then show ?thesis
    by (simp add: createOrder_def Let_def)
qed

text \<open>
  Claim C8. When the cart table holds no row of the session, \<open>createOrder\<close> returns null and
  the database it leaves is the database it found: no order, no order item, no stock
  change, no cart change.
\<close>

theorem createOrder_empty_cart_no_effect:
  assumes "\<forall>c \<in> set (cartItemsTable d). ci_session_id c \<noteq> coi_session_id input"
  shows "createOrder now input d = (Inr None, d)"
proof -
  have "filter (\<lambda>c. ci_session_id c = coi_session_id input) (cartItemsTable d) = []"
    using assms by (simp add: filter_empty_conv)
  then show ?thesis
    by (intro createOrder_null_if_empty select_cart_items_no_lines)
qed

theorem createOrder_empty_cart_no_effect_witness:
  "filter (\<lambda>c. ci_session_id c = coi_session_id (checkout ''s''))
          (cartItemsTable (shop [jewelry_row 1 199900 5] [cart_row 1 ''t'' 1 2])) = [] \<and>
   createOrder 7 (checkout ''s'') (shop [jewelry_row 1 199900 5] [cart_row 1 ''t'' 1 2])
     = (Inr None, shop [jewelry_row 1 199900 5] [cart_row 1 ''t'' 1 2])"
  using createOrder_empty_cart_no_effect
          [of "shop [jewelry_row 1 199900 5] [cart_row 1 ''t'' 1 2]" "checkout ''s''" 7]
  by (simp add: shop_def cart_row_def checkout_def)

text \<open>
  Claim C2. When some cart row of the session asks for more than the stock of the jewelry
  row it names, \<open>createOrder\<close> returns null, the result of its insufficient-stock branch, and
  the database it leaves is the database it found: the cart, the orders, the order items
  and every stock are unchanged.
\<close>

theorem createOrder_insufficient_stock_no_effect:
  assumes "c \<in> set (cartItemsTable d)" and "ci_session_id c = coi_session_id input"
    and "j \<in> set (jewelryItemsTable d)" and "ci_jewelry_item_id c = ji_id j"
    and "ci_quantity c > ji_stock_quantity j"
  shows "createOrder now input d = (Inr None, d)"
proof -
  have "(c, j) \<in> set (select_cart_items d (coi_session_id input))"
    using assms by (simp add: set_select_cart_items)
  then show ?thesis
    using assms(5) by (rule createOrder_null_if_insufficient)
qed

theorem createOrder_insufficient_stock_no_effect_witness:
  "cart_row 2 ''s'' 2 3 \<in> set (cartItemsTable (shop [jewelry_row 1 199900 5, jewelry_row 2 59900 1]
                                                   [cart_row 1 ''s'' 1 2, cart_row 2 ''s'' 2 3])) \<and>
   jewelry_row 2 59900 1 \<in> set (jewelryItemsTable (shop [jewelry_row 1 199900 5, jewelry_row 2 59900 1]
                                                         [cart_row 1 ''s'' 1 2, cart_row 2 ''s'' 2 3])) \<and>
   ci_quantity (cart_row 2 ''s'' 2 3) > ji_stock_quantity (jewelry_row 2 59900 1) \<and>
   createOrder 7 (checkout ''s'') (shop [jewelry_row 1 199900 5, jewelry_row 2 59900 1]
                                         [cart_row 1 ''s'' 1 2, cart_row 2 ''s'' 2 3])
     = (Inr None, shop [jewelry_row 1 199900 5, jewelry_row 2 59900 1]
                       [cart_row 1 ''s'' 1 2, cart_row 2 ''s'' 2 3])"
  using createOrder_insufficient_stock_no_effect
          [of "cart_row 2 ''s'' 2 3"
              "shop [jewelry_row 1 199900 5, jewelry_row 2 59900 1]
                    [cart_row 1 ''s'' 1 2, cart_row 2 ''s'' 2 3]"
              "checkout ''s''" "jewelry_row 2 59900 1" 7]
  by (simp add: shop_def cart_row_def jewelry_row_def checkout_def)

text \<open>
  Claim C10. \<open>createOrder\<close> returns the same value, null, for a session with an empty cart
  and for a session one of whose cart rows exceeds the stock: the caller cannot tell the
  two rejections apart.
\<close>

theorem createOrder_rejections_indistinguishable:
  assumes "\<forall>c \<in> set (cartItemsTable d1). ci_session_id c \<noteq> coi_session_id input1"
    and "c \<in> set (cartItemsTable d2)" and "ci_session_id c = coi_session_id input2"
    and "j \<in> set (jewelryItemsTable d2)" and "ci_jewelry_item_id c = ji_id j"
    and "ci_quantity c > ji_stock_quantity j"
  shows "fst (createOrder now1 input1 d1) = Inr None \<and>
         fst (createOrder now2 input2 d2) = fst (createOrder now1 input1 d1)"
proof -
  have "filter (\<lambda>c. ci_session_id c = coi_session_id input1) (cartItemsTable d1) = []"
    using assms(1) by (simp add: filter_empty_conv)
  then have e: "createOrder now1 input1 d1 = (Inr None, d1)"
    by (intro createOrder_null_if_empty select_cart_items_no_lines)
  have "(c, j) \<in> set (select_cart_items d2 (coi_session_id input2))"
    using assms(2-5) by (simp add: set_select_cart_items)
  then have "createOrder now2 input2 d2 = (Inr None, d2)"
    using assms(6) by (rule createOrder_null_if_insufficient)
  with e show ?thesis by simp
qed

theorem createOrder_rejections_indistinguishable_witness:
  "fst (createOrder 7 (checkout ''s'') (shop [jewelry_row 1 199900 5] [])) = Inr None \<and>
   fst (createOrder 8 (checkout ''t'') (shop [jewelry_row 1 199900 1] [cart_row 1 ''t'' 1 5]))
     = fst (createOrder 7 (checkout ''s'') (shop [jewelry_row 1 199900 5] []))"
  using createOrder_rejections_indistinguishable
          [of "shop [jewelry_row 1 199900 5] []" "checkout ''s''" "cart_row 1 ''t'' 1 5"
              "shop [jewelry_row 1 199900 1] [cart_row 1 ''t'' 1 5]" "checkout ''t''"
              "jewelry_row 1 199900 1" 7 8]
  by (simp add: shop_def cart_row_def jewelry_row_def checkout_def)

section \<open>The order transaction\<close>

lemma order_items_loop_frame:
  assumes "order_items_loop now order items acc d = (ois, d')"
  shows "cartItemsTable d' = cartItemsTable d \<and> ordersTable d' = ordersTable d \<and>
         adminUsersTable d' = adminUsersTable d \<and> orders_seq d' = orders_seq d \<and>
         jewelry_items_seq d' = jewelry_items_seq d"
  using assms
  by (induction items arbitrary: acc d) (auto simp: insert_order_item_def update_stock_def Let_def)

lemma order_items_loop_rows:
  assumes "order_items_loop now order items acc d = (ois, d')"
  shows "\<exists>new. ois = acc @ new \<and> orderItemsTable d' = orderItemsTable d @ new \<and>
           map oi_price_at_time new = map (\<lambda>item. ji_price (snd item)) items \<and>
           map oi_quantity new = map (\<lambda>item. ci_quantity (fst item)) items \<and>
           map oi_jewelry_item_id new = map (\<lambda>item. ji_id (snd item)) items \<and>
           map oi_order_id new = map (\<lambda>item. ord_id order) items"
  using assms
proof (induction items arbitrary: acc d)
  case Nil
  then show ?case by simp
next
  case (Cons item rest)
  let ?oi = "fst (insert_order_item now order item d)"
  let ?d1 = "update_stock now item (snd (insert_order_item now order item d))"
  from Cons.prems have "order_items_loop now order rest (acc @ [?oi]) ?d1 = (ois, d')"
    by (simp split: prod.splits)
  from Cons.IH [OF this] obtain new where new:
    "ois = (acc @ [?oi]) @ new" "orderItemsTable d' = orderItemsTable ?d1 @ new"
    "map oi_price_at_time new = map (\<lambda>item. ji_price (snd item)) rest"
    "map oi_quantity new = map (\<lambda>item. ci_quantity (fst item)) rest"
    "map oi_jewelry_item_id new = map (\<lambda>item. ji_id (snd item)) rest"
    "map oi_order_id new = map (\<lambda>item. ord_id order) rest"
    by blast
  have "orderItemsTable ?d1 = orderItemsTable d @ [?oi]"
    by (simp add: insert_order_item_def update_stock_def Let_def)
  with new show ?case
    by (intro exI [of _ "?oi # new"]) (simp add: insert_order_item_def Let_def)
qed


lemma decrement_Nil [simp]: "decrement now [] j = j"
  by (simp add: decrement_def)



lemma createOrder_SomeE:
  assumes "createOrder now input d = (Inr (Some order), d')"
  obtains total_amount orow ois d2 where
    "select_cart_items d (coi_session_id input) \<noteq> []"
    "\<not> insufficient_stock (select_cart_items d (coi_session_id input))"
    "numeric_10_2 (number_toString (calculate_total 0 (select_cart_items d (coi_session_id input)))) = Some total_amount"
    "orow = fst (insert_order now input total_amount d)"
    "order_items_loop now orow (select_cart_items d (coi_session_id input)) [] (snd (insert_order now input total_amount d)) = (ois, d2)"
    "d' = clear_cart (coi_session_id input) d2"
    "order = order_with_items orow (map response_item (zip ois (select_cart_items d (coi_session_id input))))"
  using assms
  by (auto simp: createOrder_def order_transaction_def Let_def split: if_splits option.splits sum.splits prod.splits)






lemma decrement_id [simp]: "ji_id (decrement now items j) = ji_id j"
  by (simp add: decrement_def)



lemma number_toString_near:
  assumes "0 \<le> x"
  shows "\<bar>number_toString x - x\<bar> \<le> 2 * x / 2 ^ 53"
proof (cases "x = 0")
  case True
  then show ?thesis by (simp add: number_toString_def)
next
  case False
  define d where "d = shortest_digits x (decimal_exponent x) [1..<18]"
  have d: "number_toString x = d"
    using False assms by (simp add: number_toString_def d_def)
  from shortest_digits_reads_back [of x "decimal_exponent x" "[1..<18]"]
  consider "d = x" | "binary64 d = x" by (auto simp: d_def)
  then show ?thesis
  proof cases
    case 1
    with assms show ?thesis by (simp add: d)
  next
    case 2
    have e: "\<bar>x - d\<bar> \<le> \<bar>d\<bar> / 2 ^ 53"
      using binary64_error [of d] by (simp add: 2)
    have "\<bar>d\<bar> / 2 ^ 53 \<le> \<bar>d\<bar> / 2"
      by (intro divide_left_mono) simp_all
    with e have "\<bar>d\<bar> \<le> 2 * x" using assms by linarith
    then have "\<bar>d\<bar> / 2 ^ 53 \<le> 2 * x / 2 ^ 53"
      by (intro divide_right_mono) simp_all
    with e show ?thesis by (simp add: d abs_minus_commute)
  qed
qed

lemma calculate_total_nonneg:
  "0 \<le> acc \<Longrightarrow> \<forall>item \<in> set items. 0 \<le> ji_price (snd item) \<and> 0 \<le> ci_quantity (fst item)
     \<Longrightarrow> 0 \<le> calculate_total acc items"
  by (induction items arbitrary: acc)
     (simp_all add: js_add_def js_mul_def parseFloat_def binary64_nonneg)

lemma stored_total_exact:
  assumes nonneg: "\<forall>item \<in> set items. 0 \<le> ji_price (snd item) \<and> 0 \<le> ci_quantity (fst item)"
    and fits: "exact_total items < 10 ^ 10"
    and size: "length items \<le> 10000"
  shows "numeric_10_2 (number_toString (calculate_total 0 items)) = Some (exact_total items)"
proof -
  define T :: rat where "T = of_int (exact_total items) / 100"
  define a where "a = calculate_total 0 items"
  define n :: rat where "n = of_nat (length items)"
  have T0: "0 \<le> T" using exact_total_nonneg [OF nonneg] by (simp add: T_def)
  have "(of_int (exact_total items) :: rat) < 10 ^ 10"
    using fits by (metis of_int_less_iff of_int_numeral of_int_power)
  then have TB: "T \<le> 10 ^ 8" by (simp add: T_def)
  have n: "0 \<le> n" "n \<le> 10000" using size by (simp_all add: n_def)
  have small: "6 * 10 ^ 8 / 2 ^ 53 * n \<le> (1 / 1000 :: rat)"
  proof -
    have "6 * 10 ^ 8 / 2 ^ 53 * n \<le> 6 * 10 ^ 8 / 2 ^ 53 * (10000 :: rat)"
      using n by (intro mult_left_mono) simp_all
    also have "\<dots> \<le> 1 / 1000" by simp
    finally show ?thesis .
  qed
  have "\<bar>calculate_total 0 items - (0 + of_int (exact_total items) / 100)\<bar>
          \<le> 0 + 6 * 10 ^ 8 / 2 ^ 53 * of_nat (length items)"
    using nonneg TB small by (intro calculate_total_error) (simp_all add: T_def n_def)
  then have aT: "\<bar>a - T\<bar> \<le> 1 / 1000"
    using small by (simp add: a_def T_def n_def)
  have a0: "0 \<le> a"
    unfolding a_def by (rule calculate_total_nonneg) (use nonneg in simp_all)
  have a_le: "a \<le> 10 ^ 8 + 1" using aT TB by linarith
  define d where "d = number_toString a"
  have "\<bar>d - a\<bar> \<le> 2 * a / 2 ^ 53"
    unfolding d_def using a0 by (rule number_toString_near)
  also have "\<dots> \<le> 2 * (10 ^ 8 + 1) / 2 ^ 53"
    using a_le by (intro divide_right_mono mult_left_mono) simp_all
  also have "\<dots> \<le> 1 / 1000" by simp
  finally have dT: "\<bar>d - T\<bar> \<le> 2 / 1000" using aT by linarith
  have "d * 100 - of_int (exact_total items) = (d - T) * 100"
    by (simp add: T_def left_diff_distrib)
  then have "\<bar>d * 100 - of_int (exact_total items)\<bar> = \<bar>d - T\<bar> * 100"
    by (simp only: abs_mult abs_numeral)
  also have "\<dots> \<le> 2 / 1000 * 100"
    using dT by (rule mult_right_mono) simp
  also have "\<dots> < 1 / 2" by simp
  finally have "\<bar>d * 100 - of_int (exact_total items)\<bar> < 1 / 2" .
  then have r: "round_half_away (d * 100) = exact_total items"
    by (rule round_half_away_near)
  have "\<bar>exact_total items\<bar> < 10 ^ 10"
    using fits exact_total_nonneg [OF nonneg] by simp
  with r show ?thesis
    by (simp add: numeric_10_2_def Let_def d_def a_def)
qed

lemma createOrder_succeeds:
  assumes "select_cart_items d (coi_session_id input) \<noteq> []"
    and "\<not> insufficient_stock (select_cart_items d (coi_session_id input))"
    and "numeric_10_2 (number_toString (calculate_total 0 (select_cart_items d (coi_session_id input)))) = Some t"
  shows "\<exists>ois d2.
           order_items_loop now (fst (insert_order now input t d)) (select_cart_items d (coi_session_id input)) []
             (snd (insert_order now input t d)) = (ois, d2) \<and>
           createOrder now input d =
             (Inr (Some (order_with_items (fst (insert_order now input t d))
                           (map response_item (zip ois (select_cart_items d (coi_session_id input)))))),
              clear_cart (coi_session_id input) d2)"
  using assms
  by (cases "order_items_loop now (fst (insert_order now input t d)) (select_cart_items d (coi_session_id input)) []
             (snd (insert_order now input t d))")
     (auto simp: createOrder_def order_transaction_def Let_def split: prod.splits)


lemma cart_lines_clear_cart [simp]: "cart_lines (clear_cart sid d) sid = []"
  by (simp add: cart_lines_def clear_cart_def)

lemma two_item_shop_items:
  "select_cart_items two_item_shop ''s'' =
     [(cart_row 1 ''s'' 1 2, jewelry_row 1 1999 5), (cart_row 2 ''s'' 2 1, jewelry_row 2 599 10)]"
  by (simp add: select_cart_items_def two_item_shop_def shop_def cart_row_def jewelry_row_def)


lemma two_item_shop_total: "exact_total (select_cart_items two_item_shop ''s'') = 4597"
  by (simp add: two_item_shop_items exact_total_def cart_row_def jewelry_row_def)

lemma createOrder_success:
  assumes nonempty: "select_cart_items d (coi_session_id input) \<noteq> []"
    and each: "\<forall>item \<in> set (select_cart_items d (coi_session_id input)).
                 0 \<le> ci_quantity (fst item) \<and> ci_quantity (fst item) \<le> ji_stock_quantity (snd item) \<and>
                 0 \<le> ji_price (snd item)"
    and fits: "exact_total (select_cart_items d (coi_session_id input)) < 10 ^ 10"
    and size: "length (select_cart_items d (coi_session_id input)) \<le> 10000"
  shows "\<exists>order d' stored.
           createOrder now input d = (Inr (Some order), d') \<and>
           ordersTable d' = ordersTable d @ [stored] \<and>
           ord_id stored = owi_id order \<and>
           ord_total_amount stored = exact_total (select_cart_items d (coi_session_id input)) \<and>
           owi_total_amount order = parseFloat (exact_total (select_cart_items d (coi_session_id input))) \<and>
           cart_lines d' (coi_session_id input) = []"
proof -
  let ?sid = "coi_session_id input"
  let ?items = "select_cart_items d ?sid"
  let ?t = "exact_total ?items"
  let ?stored = "fst (insert_order now input ?t d)"
  have enough: "\<not> insufficient_stock ?items"
    using each by (force simp: insufficient_stock_iff)
  have nonneg: "\<forall>item \<in> set ?items. 0 \<le> ji_price (snd item) \<and> 0 \<le> ci_quantity (fst item)"
    using each by blast
  have "numeric_10_2 (number_toString (calculate_total 0 ?items)) = Some ?t"
    using nonneg fits size by (rule stored_total_exact)
  from createOrder_succeeds [OF nonempty enough this, of now] obtain ois d2 where
    loop: "order_items_loop now ?stored ?items [] (snd (insert_order now input ?t d)) = (ois, d2)"
    and result: "createOrder now input d =
       (Inr (Some (order_with_items ?stored (map response_item (zip ois ?items)))), clear_cart ?sid d2)"
    by blast
  have "ordersTable (clear_cart ?sid d2) = ordersTable d @ [?stored]"
    using order_items_loop_frame [OF loop] by (simp add: clear_cart_def insert_order_def Let_def)
  moreover have "ord_total_amount ?stored = ?t"
    by (simp add: insert_order_def Let_def)
  ultimately show ?thesis
    using result by (intro exI conjI) (assumption, simp_all add: order_with_items_def)
qed

lemma two_item_shop_order:
  "\<exists>order d'. createOrder 7 (checkout ''s'') two_item_shop = (Inr (Some order), d')"
proof -
  have sid: "coi_session_id (checkout ''s'') = ''s''"
    by (simp add: checkout_def)
  have "\<exists>order d' stored.
           createOrder 7 (checkout ''s'') two_item_shop = (Inr (Some order), d') \<and>
           ordersTable d' = ordersTable two_item_shop @ [stored] \<and>
           ord_id stored = owi_id order \<and>
           ord_total_amount stored = exact_total (select_cart_items two_item_shop (coi_session_id (checkout ''s''))) \<and>
           owi_total_amount order = parseFloat (exact_total (select_cart_items two_item_shop (coi_session_id (checkout ''s'')))) \<and>
           cart_lines d' (coi_session_id (checkout ''s'')) = []"
    by (rule createOrder_success)
       (simp_all add: sid two_item_shop_total, simp_all add: two_item_shop_items cart_row_def jewelry_row_def)
  then show ?thesis by blast
qed





lemma addToCart_cart_rows:
  "cartItemsTable (snd (addToCart now input d)) = cartItemsTable d \<or>
   (\<exists>i q. cartItemsTable (snd (addToCart now input d))
            = map (\<lambda>c. if ci_id c = i then c\<lparr> ci_quantity := q, ci_updated_at := now \<rparr> else c)
                  (cartItemsTable d)) \<or>
   (\<exists>c. cartItemsTable (snd (addToCart now input d)) = cartItemsTable d @ [c] \<and>
        ci_session_id c = aci_session_id input \<and> ci_jewelry_item_id c = aci_jewelry_item_id input \<and>
        filter (\<lambda>c. ci_session_id c = aci_session_id input \<and>
                     ci_jewelry_item_id c = aci_jewelry_item_id input) (cartItemsTable d) = [])"
proof (cases "filter (\<lambda>j. ji_id j = aci_jewelry_item_id input) (jewelryItemsTable d)")
  case Nil
  then show ?thesis by (simp add: addToCart_def)
next
  case (Cons jewelryItem others)
  show ?thesis
  proof (cases "filter (\<lambda>c. ci_session_id c = aci_session_id input \<and>
                     ci_jewelry_item_id c = aci_jewelry_item_id input) (cartItemsTable d)")
    case Nil
    with Cons show ?thesis by (simp add: addToCart_def Let_def)
  next
    case existing: (Cons existingItem more)
    show ?thesis
    proof (cases "ji_stock_quantity jewelryItem < aci_quantity input \<or>
                  ci_quantity existingItem + aci_quantity input > ji_stock_quantity jewelryItem")
      case True
      with Cons existing show ?thesis by (auto simp: addToCart_def Let_def)
    next
      case False
      let ?rows = "map (\<lambda>c. if ci_id c = ci_id existingItem
                        then c\<lparr> ci_quantity := ci_quantity existingItem + aci_quantity input,
                                ci_updated_at := now \<rparr>
                        else c) (cartItemsTable d)"
      have "cartItemsTable (snd (addToCart now input d)) = ?rows"
        using Cons existing False by (simp add: addToCart_def Let_def split: list.splits)
      then show ?thesis by blast
    qed
  qed
qed

lemma addToCart_cart_unique:
  assumes "cart_unique d"
  shows "cart_unique (snd (addToCart now input d))"
proof -
  let ?key = "\<lambda>c. (ci_session_id c, ci_jewelry_item_id c)"
  from addToCart_cart_rows [of now input d]
  consider "cartItemsTable (snd (addToCart now input d)) = cartItemsTable d"
    | i q where "cartItemsTable (snd (addToCart now input d))
            = map (\<lambda>c. if ci_id c = i then c\<lparr> ci_quantity := q, ci_updated_at := now \<rparr> else c)
                  (cartItemsTable d)"
    | c where "cartItemsTable (snd (addToCart now input d)) = cartItemsTable d @ [c]"
        "ci_session_id c = aci_session_id input" "ci_jewelry_item_id c = aci_jewelry_item_id input"
        "filter (\<lambda>c. ci_session_id c = aci_session_id input \<and>
                     ci_jewelry_item_id c = aci_jewelry_item_id input) (cartItemsTable d) = []"
    by blast
  then show ?thesis
  proof cases
    case 1
    with assms show ?thesis by (simp add: cart_unique_def)
  next
    case 2
    have "map ?key (map (\<lambda>c. if ci_id c = i then c\<lparr> ci_quantity := q, ci_updated_at := now \<rparr> else c) cs)
          = map ?key cs" for cs :: "cart_item_row list"
      by (induction cs) simp_all
    with 2 assms show ?thesis by (simp add: cart_unique_def del: map_map)
  next
    case 3
    from 3(4) have "?key c \<notin> ?key ` set (cartItemsTable d)"
      by (auto simp: filter_empty_conv 3(2,3))
    with 3(1) assms show ?thesis by (simp add: cart_unique_def)
  qed
qed

lemma createOrder_unchanged:
  assumes "createOrder now input d = (r, d')" and "\<forall>order. r \<noteq> Inr (Some order)"
  shows "d' = d"
  using assms
  by (auto simp: createOrder_def Let_def split: if_splits sum.splits prod.splits)

lemma createOrder_cart_unique:
  assumes "cart_unique d"
  shows "cart_unique (snd (createOrder now input d))"
proof -
  obtain r d' where eq: "createOrder now input d = (r, d')"
    by (cases "createOrder now input d")
  show ?thesis
  proof (cases "\<exists>order. r = Inr (Some order)")
    case True
    then obtain order where "createOrder now input d = (Inr (Some order), d')"
      using eq by blast
    then obtain total_amount orow ois d2 where
      loop: "order_items_loop now orow (select_cart_items d (coi_session_id input)) []
               (snd (insert_order now input total_amount d)) = (ois, d2)"
      and d': "d' = clear_cart (coi_session_id input) d2"
      by (rule createOrder_SomeE)
    have "cartItemsTable d' = filter (\<lambda>c. ci_session_id c \<noteq> coi_session_id input) (cartItemsTable d)"
      using order_items_loop_frame [OF loop] by (simp add: d' clear_cart_def insert_order_def Let_def)
    with assms show ?thesis
      by (simp add: eq cart_unique_def distinct_map_filter)
  next
    case False
    with eq have "d' = d" by (intro createOrder_unchanged) auto
    with assms eq show ?thesis by simp
  qed
qed




lemma response_item_prices:
  "length ois = length items \<Longrightarrow>
     map line_price_at_time (map response_item (zip ois items)) = map (\<lambda>oi. parseFloat (oi_price_at_time oi)) ois"
  by (induction ois items rule: list_induct2) (simp_all add: response_item_def)

lemma updateJewelryItem_frame:
  "orderItemsTable (snd (updateJewelryItem now input d)) = orderItemsTable d \<and>
   ordersTable (snd (updateJewelryItem now input d)) = ordersTable d \<and>
   cartItemsTable (snd (updateJewelryItem now input d)) = cartItemsTable d"
  by (simp add: updateJewelryItem_def update_jewelry_rows_def Let_def split: list.splits option.splits)

text \<open>
  The transaction writes the prices of the rows that step 1 read, whatever the database it
  runs against holds by then.
\<close>

lemma order_transaction_uses_step_1_prices:
  assumes "order_transaction now input cartItems totalAmount d = Inr (order, orderItems, d')"
  shows "map oi_price_at_time orderItems = map (\<lambda>item. ji_price (snd item)) cartItems"
proof -
  from assms obtain orow d1 d2 where
    "order_items_loop now orow cartItems [] d1 = (orderItems, d2)"
    by (auto simp: order_transaction_def split: option.splits prod.splits)
  from order_items_loop_rows [OF this] show ?thesis by auto
qed

text \<open>
  Claim C9. A successful \<open>createOrder\<close> appends one order item per joined cart row, each with
  the id of the returned order and with \<open>price_at_time\<close> equal to the price in the jewelry
  row that step 1 read; the returned lines carry \<open>parseFloat\<close> of the same prices. A later
  \<open>updateJewelryItem\<close> leaves the order items and the orders, and so every \<open>price_at_time\<close>
  and every \<open>total_amount\<close>, as they are.
\<close>

theorem createOrder_price_at_time_snapshot:
  assumes "createOrder now input d = (Inr (Some order), d')"
  shows "\<exists>new.
           orderItemsTable d' = orderItemsTable d @ new \<and>
           map oi_order_id new = map (\<lambda>item. owi_id order) (select_cart_items d (coi_session_id input)) \<and>
           map oi_price_at_time new =
             map (\<lambda>item. ji_price (snd item)) (select_cart_items d (coi_session_id input)) \<and>
           map line_price_at_time (owi_items order) =
             map (\<lambda>item. parseFloat (ji_price (snd item))) (select_cart_items d (coi_session_id input)) \<and>
           orderItemsTable (snd (updateJewelryItem now' update d')) = orderItemsTable d' \<and>
           ordersTable (snd (updateJewelryItem now' update d')) = ordersTable d'"
proof -
  let ?sid = "coi_session_id input"
  let ?items = "select_cart_items d ?sid"
  from assms obtain total_amount orow ois d2 where
    orow: "orow = fst (insert_order now input total_amount d)"
    and loop: "order_items_loop now orow ?items [] (snd (insert_order now input total_amount d)) = (ois, d2)"
    and d': "d' = clear_cart ?sid d2"
    and order: "order = order_with_items orow (map response_item (zip ois ?items))"
    by (rule createOrder_SomeE)
  from order_items_loop_rows [OF loop] obtain new where new:
    "ois = new" "orderItemsTable d2 = orderItemsTable (snd (insert_order now input total_amount d)) @ new"
    "map oi_price_at_time new = map (\<lambda>item. ji_price (snd item)) ?items"
    "map oi_order_id new = map (\<lambda>item. ord_id orow) ?items"
    by auto
  have len: "length new = length ?items"
    using new(3) by (metis length_map)
  have tbl: "orderItemsTable d' = orderItemsTable d @ new"
    using new(2) by (simp add: d' clear_cart_def insert_order_def Let_def)
  have "map line_price_at_time (map response_item (zip new ?items))
        = map parseFloat (map oi_price_at_time new)"
    using response_item_prices [OF len] by (simp add: o_def)
  then have lines: "map line_price_at_time (owi_items order) = map (\<lambda>item. parseFloat (ji_price (snd item))) ?items"
    by (simp add: order order_with_items_def new(1,3) o_def)
  have ids: "map oi_order_id new = map (\<lambda>item. owi_id order) ?items"
    using new(4) by (simp add: order order_with_items_def)
  show ?thesis
    using tbl ids new(3) lines updateJewelryItem_frame [of now' update d'] by blast
qed

theorem createOrder_price_at_time_snapshot_witness:
  "\<exists>new.
     orderItemsTable (snd (createOrder 7 (checkout ''s'') two_item_shop)) = new \<and>
     map oi_price_at_time new = [1999, 599] \<and>
     map oi_price_at_time
       (orderItemsTable (snd (updateJewelryItem 9
          \<lparr> uji_id = 1, uji_name = None, uji_description = None, uji_materials = None,
            uji_category = None, uji_price = Some 2500, uji_image_url = None,
            uji_stock_quantity = None, uji_is_featured = None \<rparr>
          (snd (createOrder 7 (checkout ''s'') two_item_shop))))) = [1999, 599]"
proof -
  from two_item_shop_order obtain order d' where
    s: "createOrder 7 (checkout ''s'') two_item_shop = (Inr (Some order), d')"
    by blast
  have sid: "coi_session_id (checkout ''s'') = ''s''"
    by (simp add: checkout_def)
  have none: "orderItemsTable two_item_shop = []"
    by (simp add: two_item_shop_def shop_def)
  from createOrder_price_at_time_snapshot [OF s, of 9
         "\<lparr> uji_id = 1, uji_name = None, uji_description = None, uji_materials = None,
            uji_category = None, uji_price = Some 2500, uji_image_url = None,
            uji_stock_quantity = None, uji_is_featured = None \<rparr>"]
  show ?thesis
    by (simp add: s sid none two_item_shop_items jewelry_row_def)
qed










section \<open>Authentication\<close>

lemma verifyAdminToken_returns: "\<exists>r. verifyAdminToken rt now d token = Inr r"
  by (simp add: verifyAdminToken_def split: sum.splits)

lemma verifyAdminToken_empty: "verifyAdminToken rt now d [] = Inr None"
  by (simp add: verifyAdminToken_def verify_token_body_def)

lemma verify_token_body_cases:
  assumes "verify_token_body rt now d token = Inr (Some adminUser)"
  obtains headerB64 payloadB64 signatureB64 headerText header payloadText payload exp_claim sub userId where
    "token \<noteq> []"
    "split_on CHR ''.'' token = [headerB64, payloadB64, signatureB64]"
    "rt_atob rt headerB64 = Some headerText" "rt_json_parse rt headerText = Some header"
    "rt_atob rt payloadB64 = Some payloadText" "rt_json_parse rt payloadText = Some payload"
    "property payload ''exp'' = Inr exp_claim" "\<not> token_expired rt now exp_claim"
    "rt_atob rt (from_url_alphabet signatureB64) = Some (rt_hmac_sha256 rt (secretKey rt) (headerB64 @ ''.'' @ payloadB64))"
    "property payload ''sub'' = Inr sub" "property payload ''userId'' = Inr userId"
    "find_admin_user d (if truthy sub then sub else userId) = Some adminUser"
  using assms
  by (auto simp: verify_token_body_def split: if_splits list.splits option.splits sum.splits)

lemma verifyAdminToken_SomeD:
  "verifyAdminToken rt now d token = Inr (Some adminUser) \<Longrightarrow>
     verify_token_body rt now d token = Inr (Some adminUser)"
  by (simp add: verifyAdminToken_def split: sum.splits)


lemma filter_ConsD: "filter P xs = a # rest \<Longrightarrow> a \<in> set xs \<and> P a"
proof -
  assume "filter P xs = a # rest"
  then have "a \<in> set (filter P xs)" by simp
  then show ?thesis by simp
qed

lemma split_on_no_sep: "sep \<notin> set a \<Longrightarrow> split_on sep a = [a]"
  by (induction a) auto

lemma split_on_append: "sep \<notin> set a \<Longrightarrow> split_on sep (a @ sep # b) = a # split_on sep b"
  by (induction a) auto

lemma length_split_on: "length (split_on sep xs) = Suc (count_list xs sep)"
  by (induction xs) (auto split: list.splits)

lemma split_on_three:
  assumes "split_on sep (h @ sep # p @ sep # s) = [h', p', s']"
  shows "h' = h \<and> p' = p \<and> s' = s"
proof -
  have "length (split_on sep (h @ sep # p @ sep # s)) = 3"
    by (simp add: assms)
  then have "count_list h sep + count_list p sep + count_list s sep = 0"
    by (simp add: length_split_on)
  then have "sep \<notin> set h" "sep \<notin> set p" "sep \<notin> set s"
    by (simp_all add: count_list_0_iff)
  then have "split_on sep (h @ sep # p @ sep # s) = [h, p, s]"
    by (simp add: split_on_append split_on_no_sep)
  with assms show ?thesis by simp
qed

lemma login_claims_no_subject:
  "property (jwt_claims (login_payload admin) now) ''sub'' = Inr Undefined \<and>
   property (jwt_claims (login_payload admin) now) ''userId'' = Inr Undefined"
  by (simp add: jwt_claims_def login_payload_def)

text \<open>
  Claim C5 fails in the code. \<open>adminLogin\<close> signs the claims \<open>id\<close>, \<open>username\<close>, \<open>email\<close>, \<open>iat\<close>
  and \<open>exp\<close>; \<open>verifyAdminToken\<close> looks for the user id under \<open>sub\<close> or \<open>userId\<close>. So for
  every token that \<open>adminLogin\<close> returns, in every runtime whose decoders give back the
  claims that were encoded, \<open>verifyAdminToken\<close> returns null, whatever the time.
\<close>

theorem verifyAdminToken_rejects_login_token:
  assumes login: "adminLogin rt now d input = Inr (Some token)"
    and decode: "\<And>admin decoded payload.
        admin \<in> set (adminUsersTable d)
        \<Longrightarrow> rt_atob rt (rt_base64url rt (rt_json_stringify rt (jwt_claims (login_payload admin) now))) = Some decoded
        \<Longrightarrow> rt_json_parse rt decoded = Some payload
        \<Longrightarrow> payload = jwt_claims (login_payload admin) now"
  shows "verifyAdminToken rt now' d token = Inr None"
proof -
  from login obtain admin others where
    admin: "filter (\<lambda>admin. au_username admin = login_username input) (adminUsersTable d) = admin # others"
    and token: "token = jwt_sign rt (login_payload admin) (secretKey rt) now"
    by (auto simp: adminLogin_def split: list.splits option.splits if_splits)
  from admin have known: "admin \<in> set (adminUsersTable d)"
    using filter_ConsD by fastforce
  define h where "h = rt_base64url rt (rt_json_stringify rt jwt_header)"
  define p where "p = rt_base64url rt (rt_json_stringify rt (jwt_claims (login_payload admin) now))"
  define s where "s = rt_base64url rt (rt_hmac_sha256 rt (secretKey rt) (h @ ''.'' @ p))"
  have tok: "token = h @ CHR ''.'' # p @ CHR ''.'' # s"
    by (simp add: token jwt_sign_def Let_def h_def p_def s_def)
  obtain r where r: "verifyAdminToken rt now' d token = Inr r"
    using verifyAdminToken_returns by blast
  have "r = None"
  proof (cases r)
    case None
    then show ?thesis .
  next
    case (Some adminUser)
    with r have "verify_token_body rt now' d token = Inr (Some adminUser)"
      by (simp add: verifyAdminToken_SomeD)
    then obtain headerB64 payloadB64 signatureB64 payloadText payload sub userId where
      split: "split_on CHR ''.'' token = [headerB64, payloadB64, signatureB64]"
      and ptext: "rt_atob rt payloadB64 = Some payloadText"
      and parse: "rt_json_parse rt payloadText = Some payload"
      and sub: "property payload ''sub'' = Inr sub"
      and userId: "property payload ''userId'' = Inr userId"
      and found: "find_admin_user d (if truthy sub then sub else userId) = Some adminUser"
      by (rule verify_token_body_cases)
    from split have "payloadB64 = p"
      using split_on_three [of "CHR ''.''" h p s] by (simp add: tok)
    with ptext parse have "payload = jwt_claims (login_payload admin) now"
      using decode [OF known] by (simp add: p_def)
    with sub userId have "sub = Undefined" "userId = Undefined"
      using login_claims_no_subject [of admin now] by simp_all
    with found show ?thesis by (simp add: find_admin_user_def)
  qed
  with r show ?thesis by simp
qed

theorem verifyAdminToken_rejects_login_token_witness:
  "adminLogin table_runtime 1000 admin_db \<lparr> login_username = ''testadmin'', login_password = ''testpassword123'' \<rparr>
     = Inr (Some ''H.L.default+secret+key:H+L'') \<and>
   verifyAdminToken table_runtime 2000 admin_db ''H.L.default+secret+key:H+L'' = Inr None"
proof -
  have claims: "jwt_claims (login_payload admin_row) 1000 \<noteq> jwt_header"
    by (simp add: jwt_claims_def jwt_header_def login_payload_def)
  have login: "adminLogin table_runtime 1000 admin_db
                 \<lparr> login_username = ''testadmin'', login_password = ''testpassword123'' \<rparr>
               = Inr (Some ''H.L.default+secret+key:H+L'')"
    using claims
    by (simp add: adminLogin_def admin_db_def admin_row_def table_runtime_def jwt_sign_def
          secretKey_def table_hmac_def Let_def)
  have "payload = jwt_claims (login_payload admin) 1000"
    if "admin \<in> set (adminUsersTable admin_db)"
      and "rt_atob table_runtime (rt_base64url table_runtime
             (rt_json_stringify table_runtime (jwt_claims (login_payload admin) 1000))) = Some decoded"
      and "rt_json_parse table_runtime decoded = Some payload" for admin decoded payload
    using that claims by (simp add: admin_db_def table_runtime_def split: if_splits)
  from verifyAdminToken_rejects_login_token [OF login this, where now' = 2000] login
  show ?thesis by simp
qed

text \<open>
  Claim C7 fails in the code at the expiry 0. The expiry test is
  \<^verbatim>\<open>payload.exp && Date.now() >= payload.exp * 1000\<close>, and 0 is falsy: a correctly signed
  token whose payload carries \<open>exp: 0\<close> and the id of an existing admin user is answered with
  that user, at any time.
\<close>

theorem verifyAdminToken_accepts_expiry_zero:
  assumes "split_on CHR ''.'' token = [headerB64, payloadB64, signatureB64]"
    and "rt_atob rt headerB64 = Some headerText" and "rt_json_parse rt headerText = Some header"
    and "rt_atob rt payloadB64 = Some payloadText"
    and "rt_json_parse rt payloadText = Some (JObject [(''sub'', JNumber (of_int (au_id adminUser))), (''exp'', JNumber 0)])"
    and "rt_atob rt (from_url_alphabet signatureB64)
           = Some (rt_hmac_sha256 rt (secretKey rt) (headerB64 @ ''.'' @ payloadB64))"
    and "filter (\<lambda>a. au_id a = au_id adminUser) (adminUsersTable d) = adminUser # others"
    and "au_id adminUser \<noteq> 0"
  shows "verifyAdminToken rt now d token = Inr (Some (admin_user_of_row adminUser))"
proof -
  have "token \<noteq> []"
    using assms(1) by auto
  moreover have "\<not> token_expired rt now (Value (JNumber 0))"
    by (simp add: token_expired_def)
  moreover have "find_admin_user d (Value (JNumber (of_int (au_id adminUser)))) = Some (admin_user_of_row adminUser)"
    using assms(7,8) by (simp add: find_admin_user_def)
  ultimately show ?thesis
    using assms(1-6,8) by (simp add: verifyAdminToken_def verify_token_body_def)
qed


theorem verifyAdminToken_accepts_expiry_zero_witness:
  "verifyAdminToken table_runtime 2000 admin_db ''H.Z.default+secret+key:H+Z''
     = Inr (Some (admin_user_of_row admin_row))"
proof -
  have "split_on CHR ''.'' ''H.Z.default+secret+key:H+Z'' = [''H'', ''Z'', ''default+secret+key:H+Z'']"
    by simp
  moreover have "rt_atob table_runtime ''H'' = Some ''H''" "rt_json_parse table_runtime ''H'' = Some jwt_header"
    "rt_atob table_runtime ''Z'' = Some ''Z''"
    by (simp_all add: table_runtime_def)
  moreover have "rt_json_parse table_runtime ''Z''
      = Some (JObject [(''sub'', JNumber (of_int (au_id admin_row))), (''exp'', JNumber 0)])"
    by (simp add: table_runtime_def admin_row_def)
  moreover have "rt_atob table_runtime (from_url_alphabet ''default+secret+key:H+Z'')
      = Some (rt_hmac_sha256 table_runtime (secretKey table_runtime) (''H'' @ ''.'' @ ''Z''))"
    by (simp add: table_runtime_def from_url_alphabet_def secretKey_def table_hmac_def)
  moreover have "filter (\<lambda>a. au_id a = au_id admin_row) (adminUsersTable admin_db) = admin_row # []"
    by (simp add: admin_db_def)
  moreover have "au_id admin_row \<noteq> 0"
    by (simp add: admin_row_def)
  ultimately show ?thesis
    by (rule verifyAdminToken_accepts_expiry_zero)
qed

text \<open>
  The rest of claim C7 holds: \<open>verifyAdminToken\<close> never throws, and it returns null for the
  empty token, for a signature that is not the MAC under the verifier's key, for an expiry
  other than 0 that has passed, and for a subject that names no admin user.
\<close>

lemma find_admin_user_SomeD:
  assumes "find_admin_user d v = Some adminUser"
  shows "\<exists>n a. v = Value (JNumber n) \<and> a \<in> set (adminUsersTable d) \<and> of_int (au_id a) = n"
proof -
  from assms obtain n a rest where "v = Value (JNumber n)"
    and "filter (\<lambda>a. of_int (au_id a) = n) (adminUsersTable d) = a # rest"
    by (auto simp: find_admin_user_def split: js_value.splits json.splits if_splits list.splits)
  then show ?thesis
    using filter_ConsD [of "\<lambda>a. of_int (au_id a) = n" "adminUsersTable d" a rest] by blast
qed

lemma verifyAdminToken_rejects:
  assumes "token = []
     \<or> (\<exists>headerB64 payloadB64 signatureB64.
           split_on CHR ''.'' token = [headerB64, payloadB64, signatureB64] \<and>
           rt_atob rt (from_url_alphabet signatureB64)
             \<noteq> Some (rt_hmac_sha256 rt (secretKey rt) (headerB64 @ ''.'' @ payloadB64)))
     \<or> (\<exists>headerB64 payloadB64 signatureB64 payloadText members n.
           split_on CHR ''.'' token = [headerB64, payloadB64, signatureB64] \<and>
           rt_atob rt payloadB64 = Some payloadText \<and>
           rt_json_parse rt payloadText = Some (JObject members) \<and>
           property (JObject members) ''exp'' = Inr (Value (JNumber n)) \<and> n \<noteq> 0 \<and>
           js_mul n 1000 \<le> of_int now)
     \<or> (\<exists>headerB64 payloadB64 signatureB64 payloadText payload sub userId.
           split_on CHR ''.'' token = [headerB64, payloadB64, signatureB64] \<and>
           rt_atob rt payloadB64 = Some payloadText \<and>
           rt_json_parse rt payloadText = Some payload \<and>
           property payload ''sub'' = Inr sub \<and> property payload ''userId'' = Inr userId \<and>
           (\<forall>n. (if truthy sub then sub else userId) = Value (JNumber n) \<longrightarrow>
                (\<forall>a \<in> set (adminUsersTable d). of_int (au_id a) \<noteq> n)))"
  shows "verifyAdminToken rt now d token = Inr None"
proof -
  obtain r where r: "verifyAdminToken rt now d token = Inr r"
    using verifyAdminToken_returns by blast
  have "r = None"
  proof (cases r)
    case None
    then show ?thesis .
  next
    case (Some adminUser)
    with r have "verify_token_body rt now d token = Inr (Some adminUser)"
      by (simp add: verifyAdminToken_SomeD)
    then obtain headerB64 payloadB64 signatureB64 payloadText payload exp_claim sub userId where
      ne: "token \<noteq> []"
      and split: "split_on CHR ''.'' token = [headerB64, payloadB64, signatureB64]"
      and ptext: "rt_atob rt payloadB64 = Some payloadText"
      and parse: "rt_json_parse rt payloadText = Some payload"
      and exp: "property payload ''exp'' = Inr exp_claim" "\<not> token_expired rt now exp_claim"
      and sig: "rt_atob rt (from_url_alphabet signatureB64)
                  = Some (rt_hmac_sha256 rt (secretKey rt) (headerB64 @ ''.'' @ payloadB64))"
      and sub: "property payload ''sub'' = Inr sub"
      and userId: "property payload ''userId'' = Inr userId"
      and found: "find_admin_user d (if truthy sub then sub else userId) = Some adminUser"
      by (rule verify_token_body_cases)
    from find_admin_user_SomeD [OF found] obtain n a where
      n: "(if truthy sub then sub else userId) = Value (JNumber n)"
      and a: "a \<in> set (adminUsersTable d)" "of_int (au_id a) = n"
      by blast
    from assms ne split ptext parse exp sig sub userId n a show ?thesis
      by (auto simp: token_expired_def)
  qed
  with r show ?thesis by simp
qed

section \<open>The guard of the admin procedures\<close>

lemma procedure_guarded:
  assumes "\<And>adminUser. verifyAdminToken rt now d token = Inr (Some adminUser) \<Longrightarrow>
             snd (snd outcome) = [Call_verifyAdminToken token, handler]"
    and "verifyAdminToken rt now d token = Inr None \<Longrightarrow>
             outcome = (Inl Unauthorized, d, [Call_verifyAdminToken token])"
    and "handler \<noteq> Call_verifyAdminToken token"
  shows "guarded_by_token rt now d token handler outcome"
proof -
  obtain r where r: "verifyAdminToken rt now d token = Inr r"
    using verifyAdminToken_returns by blast
  show ?thesis
  proof (cases r)
    case None
    with r assms(2,3) show ?thesis by (simp add: guarded_by_token_def)
  next
    case (Some adminUser)
    with r assms(1) [of adminUser] show ?thesis
      by (cases outcome) (simp add: guarded_by_token_def)
  qed
qed

text \<open>
  Claim C6. Each of the four mutating admin procedures calls \<open>verifyAdminToken\<close> on the
  token first; when it returns null the procedure throws the authorization failure, the
  database is untouched and the handler is not called; the handler is called only after
  \<open>verifyAdminToken\<close> returned an admin user.
\<close>

theorem admin_procedures_guarded:
  "guarded_by_token rt now d token Call_createJewelryItem
     (createJewelryItem_procedure rt now token created d) \<and>
   guarded_by_token rt now d token Call_updateJewelryItem
     (updateJewelryItem_procedure rt now token updated d) \<and>
   guarded_by_token rt now d token Call_deleteJewelryItem
     (deleteJewelryItem_procedure rt now token i d) \<and>
   guarded_by_token rt now d token Call_updateOrderStatus
     (updateOrderStatus_procedure rt now token i status d)"
proof (intro conjI)
  show "guarded_by_token rt now d token Call_createJewelryItem
          (createJewelryItem_procedure rt now token created d)"
    by (rule procedure_guarded) (simp_all add: createJewelryItem_procedure_def split: prod.splits)
  show "guarded_by_token rt now d token Call_updateJewelryItem
          (updateJewelryItem_procedure rt now token updated d)"
    by (rule procedure_guarded) (simp_all add: updateJewelryItem_procedure_def split: prod.splits)
  show "guarded_by_token rt now d token Call_deleteJewelryItem
          (deleteJewelryItem_procedure rt now token i d)"
    by (rule procedure_guarded) (simp_all add: deleteJewelryItem_procedure_def split: prod.splits)
  show "guarded_by_token rt now d token Call_updateOrderStatus
          (updateOrderStatus_procedure rt now token i status d)"
    by (rule procedure_guarded) (simp_all add: updateOrderStatus_procedure_def split: prod.splits)
qed


theorem admin_procedures_guarded_witness:
  "deleteJewelryItem_procedure table_runtime 2000 ''not-a-jwt-at-all'' 1 admin_db
     = (Inl Unauthorized, admin_db, [Call_verifyAdminToken ''not-a-jwt-at-all'']) \<and>
   updateOrderStatus_procedure table_runtime 2000 [] 1 shipped admin_db
     = (Inl Unauthorized, admin_db, [Call_verifyAdminToken []])"
proof -
  have "verifyAdminToken table_runtime 2000 admin_db ''not-a-jwt-at-all'' = Inr None"
    by (simp add: verifyAdminToken_def verify_token_body_def)
  moreover have "verifyAdminToken table_runtime 2000 admin_db [] = Inr None"
    by (rule verifyAdminToken_empty)
  ultimately show ?thesis
    using admin_procedures_guarded [of table_runtime 2000 admin_db "''not-a-jwt-at-all''" _ _ 1 shipped]
      admin_procedures_guarded [of table_runtime 2000 admin_db "[]" _ _ 1 shipped]
    by (auto simp: guarded_by_token_def)
qed

end
